theory Spec2Isabelle
  imports Complex_Main "HOL-Library.Sublist"
begin

section \<open>Evaluation script of the masked face recognition model (eval.py)\<close>

text \<open>
  The script evaluates a pretrained FocusFace network: for every batch of the data
  loader it embeds masked and unmasked images, scores each pair of embeddings and
  hands the aggregated genuine and impostor scores to the metrics function.

  Modelling decisions.
  \<^item> A tensor of floats is a list of rows of \<open>real\<close>; the float32 arithmetic of the
    framework is idealised as arithmetic on real numbers (no rounding).
  \<^item> An exception is a value: a computation returns \<open>error + 'a\<close>, with \<open>Inl\<close> the
    exception that was raised.
  \<^item> Code of the repository that the script only calls (the network, the data loader,
    the checkpoint, logging and metrics helpers) is a parameter, collected in the
    record \<open>env\<close>.
  \<^item> A call of the network may change the network (its buffers), so the forward pass
    returns the state it leaves the network in, and that state is passed on.
  \<^item> The calls into the libraries are recorded, in order, in a trace; a run is the
    pair of its trace and its outcome.
\<close>

subsection \<open>Exceptions\<close>

datatype error =
    IndexError
  | RuntimeError
  | LibraryError string

definition bind_err :: "error + 'a \<Rightarrow> ('a \<Rightarrow> error + 'b) \<Rightarrow> error + 'b" where
  "bind_err r f = (case r of Inl e \<Rightarrow> Inl e | Inr x \<Rightarrow> f x)"

text \<open>Python's \<open>xs[i]\<close> for a non-negative index \<open>i\<close>.\<close>

definition index :: "'a list \<Rightarrow> nat \<Rightarrow> error + 'a" where
  "index xs i = (if i < length xs then Inr (xs ! i) else Inl IndexError)"

subsection \<open>Tensor operations used by the script\<close>

type_synonym vector = "real list"
type_synonym matrix = "real list list"

definition l2_norm :: "vector \<Rightarrow> real" where
  "l2_norm v = sqrt (\<Sum>x\<leftarrow>v. x\<^sup>2)"

definition l2_distance :: "vector \<Rightarrow> vector \<Rightarrow> real" where
  "l2_distance u v = l2_norm (map2 (-) u v)"

text \<open>
  \<open>t.reshape(1, -1)\<close> on a one-dimensional tensor: the matrix of one row, also for
  a tensor without elements (the result then has the shape \<open>(1, 0)\<close>).
\<close>

definition reshape_1 :: "vector \<Rightarrow> matrix" where
  "reshape_1 v = [v]"

text \<open>
  \<open>torch.cdist(x1, x2)\<close> with the default \<open>p = 2\<close>: the matrix of the Euclidean
  distances between every row of \<open>x1\<close> and every row of \<open>x2\<close>. The two arguments
  must have the same number of columns.
\<close>

definition cdist :: "matrix \<Rightarrow> matrix \<Rightarrow> error + matrix" where
  "cdist x1 x2 =
     (if list_all (\<lambda>a. list_all (\<lambda>b. length a = length b) x2) x1
      then Inr (map (\<lambda>a. map (\<lambda>b. l2_distance a b) x2) x1)
      else Inl RuntimeError)"

text \<open>
  \<open>torch.nn.functional.normalize(x)\<close> with its defaults \<open>p = 2\<close>, \<open>dim = 1\<close>,
  \<open>eps = 1e-12\<close>: every row is divided by the larger of its norm and \<open>eps\<close>.
\<close>

definition eps :: real where
  "eps = 1 / 10 ^ 12"

definition normalize_row :: "vector \<Rightarrow> vector" where
  "normalize_row v = map (\<lambda>x. x / max (l2_norm v) eps) v"

definition normalize :: "matrix \<Rightarrow> matrix" where
  "normalize x = map normalize_row x"

subsection \<open>embedding_dist\<close>

text \<open>
  The loop \<open>for i in range(embed1.shape[0])\<close> with its accumulator \<open>embeds\<close>. The
  arguments of \<open>torch.cdist\<close> are evaluated from left to right; \<open>[0][0]\<close> reads the
  single entry of the distance matrix.
\<close>

definition similarity :: "matrix \<Rightarrow> matrix \<Rightarrow> nat \<Rightarrow> error + real" where
  "similarity embed1 embed2 i =
     bind_err (index embed1 i) (\<lambda>r1.
     let x1 = reshape_1 r1 in
     bind_err (index embed2 i) (\<lambda>r2.
     let x2 = reshape_1 r2 in
     bind_err (cdist x1 x2) (\<lambda>d.
     bind_err (index d 0) (\<lambda>d0.
     bind_err (index d0 0) (\<lambda>d00.
     Inr (1 - d00 / 2))))))"

fun embedding_dist_loop :: "matrix \<Rightarrow> matrix \<Rightarrow> nat list \<Rightarrow> real list \<Rightarrow> error + real list" where
  "embedding_dist_loop embed1 embed2 [] embeds = Inr embeds"
| "embedding_dist_loop embed1 embed2 (i # rest) embeds =
     bind_err (similarity embed1 embed2 i) (\<lambda>sim.
     embedding_dist_loop embed1 embed2 rest (embeds @ [sim]))"

definition embedding_dist :: "matrix \<Rightarrow> matrix \<Rightarrow> error + real list" where
  "embedding_dist embed1 embed2 =
     embedding_dist_loop embed1 embed2 [0..<length embed1] []"

text \<open>
  The kind of object that \<open>return embeds\<close> hands to the caller: the Python list
  that the loop appended to, although the annotation of the function announces a
  \<open>torch.Tensor\<close>.
\<close>

datatype pyvalue = PyList "real list" | TorchTensor matrix

definition embedding_dist_annotation :: "pyvalue \<Rightarrow> bool" where
  "embedding_dist_annotation v = (case v of TorchTensor t \<Rightarrow> True | PyList xs \<Rightarrow> False)"

definition embedding_dist_return :: "matrix \<Rightarrow> matrix \<Rightarrow> error + pyvalue" where
  "embedding_dist_return embed1 embed2 =
     bind_err (embedding_dist embed1 embed2) (\<lambda>embeds. Inr (PyList embeds))"

subsection \<open>External calls and their trace\<close>

text \<open>
  The identities (targets) have type \<open>'t\<close>, the state of the network (its weights and
  buffers) has type \<open>'n\<close>, the dictionary of metrics has type \<open>'m\<close>. A run of the
  script is observed through the calls it makes into the libraries, in order, each
  with the exception it raised, if any.
\<close>

datatype device = Cuda | Cpu

datatype ('t, 'm) event =
    ManualSeed nat
  | CudaManualSeed nat
  | SetLogger string
  | LogInfo string
  | CreateDataloader string nat nat
  | NewFocusFace nat
  | LoadCheckpoint string
  | Forward matrix 't
  | EvaluateMetrics string "real list" "real list"
  | SaveDictToJson 'm string

type_synonym ('t, 'm) trace = "(('t, 'm) event \<times> error option) list"

type_synonym ('t, 'm, 'a) run = "('t, 'm) trace \<times> (error + 'a)"

definition unit_run :: "'a \<Rightarrow> ('t, 'm, 'a) run" where
  "unit_run x = ([], Inr x)"

definition lift :: "error + 'a \<Rightarrow> ('t, 'm, 'a) run" where
  "lift r = ([], r)"

definition raised :: "error + 'a \<Rightarrow> error option" where
  "raised r = (case r of Inl e \<Rightarrow> Some e | Inr _ \<Rightarrow> None)"

definition call :: "('t, 'm) event \<Rightarrow> error + 'a \<Rightarrow> ('t, 'm, 'a) run" where
  "call ev r = ([(ev, raised r)], r)"

definition bind_run :: "('t, 'm, 'a) run \<Rightarrow> ('a \<Rightarrow> ('t, 'm, 'b) run) \<Rightarrow> ('t, 'm, 'b) run" where
  "bind_run m f =
     (case m of
        (es, Inl e) \<Rightarrow> (es, Inl e)
      | (es, Inr x) \<Rightarrow> (case f x of (es', r) \<Rightarrow> (es @ es', r)))"

text \<open>
  One side (genuine or impostor) of a batch of the data loader: the dictionary with
  the keys \<open>target\<close>, \<open>masked\<close> and \<open>unmasked\<close>. An image is the row of its pixel
  values.
\<close>

record 't pairs =
  target :: "'t list"
  masked :: matrix
  unmasked :: matrix

type_synonym 't batch = "'t pairs \<times> 't pairs"

text \<open>
  The code the script calls but does not define. The forward pass of the network
  returns the tuple of its outputs and the state it leaves the network in;
  \<open>load_checkpoint\<close> returns the network with the weights of the file loaded.
\<close>

record ('n, 't, 'm) env =
  cuda_is_available :: bool
  set_logger :: "string \<Rightarrow> error + unit"
  create_dataloader :: "string \<Rightarrow> nat \<Rightarrow> nat \<Rightarrow> error + ('t batch list \<times> 't batch list)"
  FocusFace :: "nat \<Rightarrow> error + 'n"
  load_checkpoint :: "string \<Rightarrow> 'n \<Rightarrow> error + 'n"
  forward :: "'n \<Rightarrow> matrix \<Rightarrow> 't \<Rightarrow> error + (matrix list \<times> 'n)"
  evaluate_metrics :: "string \<Rightarrow> real list \<Rightarrow> real list \<Rightarrow> error + 'm"
  save_dict_to_json :: "'m \<Rightarrow> string \<Rightarrow> error + unit"

text \<open>\<open>x.to(device)\<close> moves a value and leaves it as it is.\<close>

definition to_device :: "device \<Rightarrow> 'a \<Rightarrow> 'a" where
  "to_device d x = x"

subsection \<open>generate_embeddings\<close>

text \<open>
  The normalisation \<open>((data / 255) - 0.5) / 0.5\<close> acts on every pixel; the call
  \<open>net(img, target, inference=True)\<close> returns a tuple, of which \<open>[1]\<close> is the
  embedding.
\<close>

definition pixel_normalize :: "matrix \<Rightarrow> matrix" where
  "pixel_normalize data = map (map (\<lambda>v. ((v / 255) - 0.5) / 0.5)) data"

definition generate_embeddings ::
  "('n, 't, 'm) env \<Rightarrow> 'n \<Rightarrow> 't \<Rightarrow> matrix \<Rightarrow> ('t, 'm, matrix \<times> 'n) run" where
  "generate_embeddings E net tgt data =
     (let img = pixel_normalize data in
      bind_run (call (Forward img tgt) (forward E net img tgt)) (\<lambda>(outs, net').
      bind_run (lift (index outs 1)) (\<lambda>embed.
      unit_run (embed, net'))))"

subsection \<open>evaluate\<close>

text \<open>The body of the loop over the data loader, up to the two lists of scores.\<close>

definition batch_scores ::
  "('n, 't, 'm) env \<Rightarrow> device \<Rightarrow> 'n \<Rightarrow> 't batch \<Rightarrow> ('t, 'm, 'n \<times> real list \<times> real list) run" where
  "batch_scores E dev net b =
     (case b of (gen, imp) \<Rightarrow>
      bind_run (lift (index (target gen) 0)) (\<lambda>t0.
      let gen_target = to_device dev t0;
          gen_masked = to_device dev (masked gen);
          gen_unmasked = to_device dev (unmasked gen) in
      bind_run (lift (index (target imp) 1)) (\<lambda>t1.
      let imp_target = to_device dev t1;
          imp_masked = to_device dev (masked imp);
          imp_unmasked = to_device dev (unmasked imp) in
      bind_run (generate_embeddings E net gen_target gen_masked) (\<lambda>(e1, net1).
      bind_run (generate_embeddings E net1 gen_target gen_unmasked) (\<lambda>(e2, net2).
      let gen_emb1 = normalize e1; gen_emb2 = normalize e2 in
      bind_run (generate_embeddings E net2 imp_target imp_masked) (\<lambda>(e3, net3).
      bind_run (generate_embeddings E net3 imp_target imp_unmasked) (\<lambda>(e4, net4).
      let imp_emb1 = normalize e3; imp_emb2 = normalize e4 in
      bind_run (lift (embedding_dist gen_emb1 gen_emb2)) (\<lambda>g_dist.
      bind_run (lift (embedding_dist imp_emb1 imp_emb2)) (\<lambda>i_dist.
      unit_run (net4, g_dist, i_dist))))))))))"

text \<open>
  The loop \<open>for i, (gen, imp) in enumerate(tqdm(data_loader), 0)\<close>, with the two
  accumulators that \<open>extend\<close> grows. The progress bar and the unused counter are
  left out.
\<close>

fun score_loop ::
  "('n, 't, 'm) env \<Rightarrow> device \<Rightarrow> 'n \<Rightarrow> 't batch list \<Rightarrow> real list \<Rightarrow> real list
     \<Rightarrow> ('t, 'm, 'n \<times> real list \<times> real list) run" where
  "score_loop E dev net [] gscores iscores = unit_run (net, gscores, iscores)"
| "score_loop E dev net (b # rest) gscores iscores =
     bind_run (batch_scores E dev net b) (\<lambda>(net', g_dist, i_dist).
     score_loop E dev net' rest (gscores @ g_dist) (iscores @ i_dist))"

text \<open>
  \<open>evaluate\<close> returns the metrics; the network it was given is left in the state
  that the forward passes produced, which the model returns as well. The block
  \<open>with torch.no_grad()\<close> switches gradient recording off and has no counterpart
  here; the constant arguments \<open>clf_name='A'\<close> and \<open>print_results=True\<close> of
  \<open>evaluate_metrics\<close> are part of the parameter.
\<close>

definition evaluate ::
  "('n, 't, 'm) env \<Rightarrow> string \<Rightarrow> 'n \<Rightarrow> 't batch list \<Rightarrow> device \<Rightarrow> ('t, 'm, 'm \<times> 'n) run" where
  "evaluate E model_dir net data_loader dev =
     bind_run (score_loop E dev net data_loader [] []) (\<lambda>(net', gscores, iscores).
     bind_run (call (EvaluateMetrics model_dir gscores iscores)
                 (evaluate_metrics E model_dir gscores iscores)) (\<lambda>metrics.
     unit_run (metrics, net')))"

subsection \<open>The main procedure\<close>

text \<open>\<open>os.path.join\<close> of two components, on a POSIX system.\<close>

definition os_path_join :: "string \<Rightarrow> string \<Rightarrow> string" where
  "os_path_join a b =
     (if b \<noteq> [] \<and> hd b = CHR ''/'' then b
      else if a = [] \<or> last a = CHR ''/'' then a @ b
      else a @ ''/'' @ b)"

text \<open>The parsed command line; \<open>example_args\<close> below holds the defaults.\<close>

record args =
  data_dir :: string
  model_dir :: string
  pretrained :: string

text \<open>
  The body of \<open>if __name__ == '__main__'\<close>, after \<open>parser.parse_args()\<close>. Seeding
  and \<open>logging.info\<close> are recorded as calls that return.
\<close>

definition main :: "('n, 't, 'm) env \<Rightarrow> args \<Rightarrow> ('t, 'm, unit) run" where
  "main E a =
     bind_run (call (ManualSeed 230) (Inr ())) (\<lambda>_.
     bind_run (if cuda_is_available E
               then bind_run (call (CudaManualSeed 230) (Inr ())) (\<lambda>_. unit_run Cuda)
               else unit_run Cpu) (\<lambda>dev.
     let log_path = os_path_join (model_dir a) ''test.log'' in
     bind_run (call (SetLogger log_path) (set_logger E log_path)) (\<lambda>_.
     let batch_size = 64; workers = 2 in
     bind_run (call (LogInfo ''Loading the datasets ...'') (Inr ())) (\<lambda>_.
     bind_run (call (CreateDataloader (data_dir a) batch_size workers)
                 (create_dataloader E (data_dir a) batch_size workers)) (\<lambda>(_, test_loader).
     bind_run (call (LogInfo ''- Done.'') (Inr ())) (\<lambda>_.
     let identities = 601 in
     bind_run (call (NewFocusFace identities) (FocusFace E identities)) (\<lambda>net0.
     let net = to_device dev net0;
         pretrain_path = os_path_join (model_dir a) (pretrained a @ ''.pth.tar'') in
     bind_run (call (LogInfo (''Loading parameters from '' @ pretrain_path)) (Inr ())) (\<lambda>_.
     bind_run (call (LoadCheckpoint pretrain_path) (load_checkpoint E pretrain_path net)) (\<lambda>net1.
     bind_run (call (LogInfo ''Start evaluation ...'') (Inr ())) (\<lambda>_.
     bind_run (evaluate E (model_dir a) net1 test_loader dev) (\<lambda>(test_metrics, _).
     let save_path = os_path_join (model_dir a) (''test_metrics_'' @ pretrained a @ ''.json'') in
     bind_run (call (SaveDictToJson test_metrics save_path)
                 (save_dict_to_json E test_metrics save_path)) (\<lambda>_.
     unit_run ()))))))))))))"

subsection \<open>Observations on a run\<close>

text \<open>
  The per-batch score lists: what the iterations of the loop of \<open>evaluate\<close> compute,
  one pair of lists per batch and in the order of the data loader, before any
  aggregation; the first exception ends the iteration.
\<close>

fun per_batch_scores ::
  "('n, 't, 'm) env \<Rightarrow> device \<Rightarrow> 'n \<Rightarrow> 't batch list
     \<Rightarrow> error + ((real list \<times> real list) list \<times> 'n)" where
  "per_batch_scores E dev net [] = Inr ([], net)"
| "per_batch_scores E dev net (b # rest) =
     (case snd (batch_scores E dev net b) of
        Inl e \<Rightarrow> Inl e
      | Inr (net', g_dist, i_dist) \<Rightarrow>
          (case per_batch_scores E dev net' rest of
             Inl e \<Rightarrow> Inl e
           | Inr (rs, net'') \<Rightarrow> Inr ((g_dist, i_dist) # rs, net'')))"

text \<open>
  No exception of a library call is caught: a call that raised is the last call of
  the run, and its exception is the outcome of the run.
\<close>

definition uncaught :: "('t, 'm, 'a) run \<Rightarrow> bool" where
  "uncaught m =
     (\<forall>i<length (fst m). \<forall>e. snd (fst m ! i) = Some e
        \<longrightarrow> Suc i = length (fst m) \<and> snd m = Inl e)"

text \<open>The files a run touches through the logger, the checkpoint and the metrics.\<close>

datatype file_use = LogFile string | CheckpointFile string | MetricsFile string

fun file_of :: "('t, 'm) event \<Rightarrow> file_use list" where
  "file_of (SetLogger p) = [LogFile p]"
| "file_of (LoadCheckpoint p) = [CheckpointFile p]"
| "file_of (SaveDictToJson m p) = [MetricsFile p]"
| "file_of _ = []"

definition files :: "('t, 'm) trace \<Rightarrow> file_use list" where
  "files es = concat (map (\<lambda>(ev, out). file_of ev) es)"

text \<open>The steps of the procedure that a run goes through.\<close>

datatype step = LoadDataset | LoadModel | LoadWeights | EmbedImages | ComputeMetrics | Serialize

fun step_of :: "('t, 'm) event \<Rightarrow> step list" where
  "step_of (CreateDataloader d b w) = [LoadDataset]"
| "step_of (NewFocusFace n) = [LoadModel]"
| "step_of (LoadCheckpoint p) = [LoadWeights]"
| "step_of (Forward img t) = [EmbedImages]"
| "step_of (EvaluateMetrics d g i) = [ComputeMetrics]"
| "step_of (SaveDictToJson m p) = [Serialize]"
| "step_of _ = []"

definition steps :: "('t, 'm) trace \<Rightarrow> step list" where
  "steps es = concat (map (\<lambda>(ev, out). step_of ev) es)"

text \<open>
  The forward passes of a batch that is processed without an exception: the masked
  and the unmasked images of the genuine pairs, then those of the impostor pairs,
  each with its pixels normalised and with the target of its side.
\<close>

definition batch_forwards :: "'t batch \<Rightarrow> ('t, 'm) event list" where
  "batch_forwards b =
     (case b of (gen, imp) \<Rightarrow>
        [Forward (pixel_normalize (masked gen)) (target gen ! 0),
         Forward (pixel_normalize (unmasked gen)) (target gen ! 0),
         Forward (pixel_normalize (masked imp)) (target imp ! 1),
         Forward (pixel_normalize (unmasked imp)) (target imp ! 1)])"

text \<open>
  A run follows the plan \<open>T\<close> under a projection of its trace: what it did is a
  prefix of the plan, and the whole plan when it returned.
\<close>

definition observes ::
  "(('t, 'm) trace \<Rightarrow> 'x list) \<Rightarrow> 'x list \<Rightarrow> ('t, 'm, 'a) run \<Rightarrow> bool" where
  "observes proj T m =
     (prefix (proj (fst m)) T \<and> (\<forall>u. snd m = Inr u \<longrightarrow> proj (fst m) = T))"

subsection \<open>An example environment\<close>

text \<open>
  A small environment on which the definitions can be run: the network returns its
  normalised input as the embedding and counts its forward passes, the metrics are
  the two sums of scores.
\<close>

definition example_loader :: "nat batch list" where
  "example_loader =
     [(\<lparr>target = [7, 7], masked = [[255]], unmasked = [[255]]\<rparr>,
       \<lparr>target = [7, 9], masked = [[255]], unmasked = [[0]]\<rparr>),
      (\<lparr>target = [3, 3], masked = [[255], [0]], unmasked = [[255], [255]]\<rparr>,
       \<lparr>target = [3, 4], masked = [[0], [0]], unmasked = [[255], [0]]\<rparr>)]"

definition example_env :: "(nat, nat, real \<times> real) env" where
  "example_env =
     \<lparr>cuda_is_available = False,
      set_logger = (\<lambda>p. Inr ()),
      create_dataloader = (\<lambda>d b w. Inr ([], example_loader)),
      FocusFace = (\<lambda>n. Inr 0),
      load_checkpoint = (\<lambda>p net. Inr net),
      forward = (\<lambda>net img t. Inr ([[], img], Suc net)),
      evaluate_metrics = (\<lambda>d g i. Inr (sum_list g, sum_list i)),
      save_dict_to_json = (\<lambda>m p. Inr ())\<rparr>"

definition example_args :: args where
  "example_args = \<lparr>data_dir = ''data/val'', model_dir = ''result/base_model'',
                    pretrained = ''last''\<rparr>"

text \<open>
  The same environment with a network that has parameters and a buffer: the state is
  the pair of a parameter and of the number of forward passes made so far.
\<close>

definition buffered_env :: "(nat \<times> nat, nat, real \<times> real) env" where
  "buffered_env =
     \<lparr>cuda_is_available = False,
      set_logger = (\<lambda>p. Inr ()),
      create_dataloader = (\<lambda>d b w. Inr ([], example_loader)),
      FocusFace = (\<lambda>n. Inr (42, 0)),
      load_checkpoint = (\<lambda>p net. Inr net),
      forward = (\<lambda>net img t. Inr ([[], img], (fst net, Suc (snd net)))),
      evaluate_metrics = (\<lambda>d g i. Inr (sum_list g, sum_list i)),
      save_dict_to_json = (\<lambda>m p. Inr ())\<rparr>"

section \<open>Properties of embedding_dist\<close>

lemma similarity_ok:
  assumes "i < length e1" "i < length e2" "length (e1 ! i) = length (e2 ! i)"
  shows "similarity e1 e2 i = Inr (1 - l2_distance (e1 ! i) (e2 ! i) / 2)"
  using assms
  by (simp add: similarity_def bind_err_def index_def reshape_1_def cdist_def)

lemma similarity_Inr:
  assumes "similarity e1 e2 i = Inr s"
  shows "i < length e1 \<and> i < length e2 \<and> length (e1 ! i) = length (e2 ! i)
         \<and> s = 1 - l2_distance (e1 ! i) (e2 ! i) / 2"
  using assms
  by (auto simp add: similarity_def bind_err_def index_def reshape_1_def cdist_def
      split: if_splits sum.splits)

lemma embedding_dist_loop_ok:
  assumes "\<forall>i\<in>set is. i < length e1 \<and> i < length e2
             \<and> length (e1 ! i) = length (e2 ! i)"
  shows "embedding_dist_loop e1 e2 is acc
           = Inr (acc @ map (\<lambda>i. 1 - l2_distance (e1 ! i) (e2 ! i) / 2) is)"
  using assms
  by (induction "is" arbitrary: acc) (simp_all add: similarity_ok bind_err_def)

lemma embedding_dist_loop_Inr:
  assumes "embedding_dist_loop e1 e2 is acc = Inr ss"
  shows "ss = acc @ map (\<lambda>i. 1 - l2_distance (e1 ! i) (e2 ! i) / 2) is
         \<and> (\<forall>i\<in>set is. i < length e2 \<and> length (e1 ! i) = length (e2 ! i))"
  using assms
proof (induction "is" arbitrary: acc)
  case Nil
  then show ?case by simp
next
  case (Cons i rest)
  from Cons.prems obtain s where s: "similarity e1 e2 i = Inr s"
    and r: "embedding_dist_loop e1 e2 rest (acc @ [s]) = Inr ss"
    by (auto simp add: bind_err_def split: sum.splits)
  from similarity_Inr [OF s] Cons.IH [OF r] show ?case by simp
qed

lemma embedding_dist_ok:
  assumes "length e1 \<le> length e2"
    and "\<forall>i<length e1. length (e1 ! i) = length (e2 ! i)"
  shows "embedding_dist e1 e2
           = Inr (map (\<lambda>i. 1 - l2_distance (e1 ! i) (e2 ! i) / 2) [0..<length e1])"
  unfolding embedding_dist_def using assms
  by (subst embedding_dist_loop_ok) auto

lemma embedding_dist_Inr:
  assumes "embedding_dist e1 e2 = Inr ss"
  shows "ss = map (\<lambda>i. 1 - l2_distance (e1 ! i) (e2 ! i) / 2) [0..<length e1]
         \<and> (\<forall>i<length e1. i < length e2 \<and> length (e1 ! i) = length (e2 ! i))"
  using embedding_dist_loop_Inr [of e1 e2 "[0..<length e1]" "[]" ss] assms
  by (simp add: embedding_dist_def)

lemmas embedding_dist_eval =
  embedding_dist_def similarity_def bind_err_def index_def reshape_1_def cdist_def
  l2_distance_def l2_norm_def upt_rec Let_def

text \<open>
  C1, as amended. For every pair of embedding batches with the same first dimension
  \<open>n\<close> whose paired rows have the same length, \<open>embedding_dist\<close> returns, for each
  index \<open>i < n\<close>, the score \<open>1 - d / 2\<close>, where \<open>d\<close> is the Euclidean distance
  between row \<open>i\<close> of the first batch and row \<open>i\<close> of the second.
\<close>

theorem embedding_dist_scores:
  assumes "length embed1 = n" and "length embed2 = n"
    and "\<forall>i<n. length (embed1 ! i) = length (embed2 ! i)"
  shows "\<exists>scores. embedding_dist embed1 embed2 = Inr scores \<and> length scores = n \<and>
           (\<forall>i<n. scores ! i = 1 - l2_distance (embed1 ! i) (embed2 ! i) / 2)"
proof -
  have "embedding_dist embed1 embed2
          = Inr (map (\<lambda>i. 1 - l2_distance (embed1 ! i) (embed2 ! i) / 2) [0..<n])"
    using assms embedding_dist_ok [of embed1 embed2] by simp
  then show ?thesis by simp
qed

theorem embedding_dist_scores_witness:
  "length [[3, 4], [1, 0::real]] = 2 \<and> length [[0, 0], [1, 0::real]] = 2
   \<and> (\<exists>scores. embedding_dist [[3, 4], [1, 0]] [[0, 0], [1, 0]] = Inr scores
          \<and> length scores = 2
          \<and> (\<forall>i<2. scores ! i
                = 1 - l2_distance ([[3, 4], [1, 0]] ! i) ([[0, 0], [1, 0]] ! i) / 2))"
proof -
  have h: "\<forall>i<2. length ([[3, 4], [1, 0::real]] ! i) = length ([[0, 0], [1, 0::real]] ! i)"
    by (simp add: less_Suc_eq numeral_2_eq_2)
  from embedding_dist_scores [of "[[3, 4], [1, 0]]" 2 "[[0, 0], [1, 0]]", OF _ _ h]
  show ?thesis by simp
qed

text \<open>
  C1 as it is written fails: two batches of first dimension 1 whose rows have the
  lengths 1 and 2 make \<open>torch.cdist\<close> raise, and no score is returned.
\<close>

theorem embedding_dist_scores_counterexample:
  "length [[0::real]] = 1 \<and> length [[0, 0::real]] = 1
   \<and> embedding_dist [[0]] [[0, 0]] = Inl RuntimeError
   \<and> \<not> (\<exists>scores. embedding_dist [[0]] [[0, 0]] = Inr scores \<and> length scores = 1 \<and>
           (\<forall>i<1. scores ! i = 1 - l2_distance ([[0]] ! i) ([[0, 0]] ! i) / 2))"
  by (simp add: embedding_dist_eval)

text \<open>
  C9, as amended. For every pair of embedding batches whose first dimension is \<open>n\<close>
  and whose paired rows have the same length, \<open>embedding_dist\<close> returns a Python
  list of exactly \<open>n\<close> scalar scores (not a \<open>torch.Tensor\<close> as its type annotation
  declares), one per row index of the first batch.
\<close>

theorem embedding_dist_length:
  assumes "length embed1 = n" and "length embed2 = n"
    and "\<forall>i<n. length (embed1 ! i) = length (embed2 ! i)"
  shows "\<exists>scores. embedding_dist_return embed1 embed2 = Inr (PyList scores)
           \<and> \<not> embedding_dist_annotation (PyList scores)
           \<and> embedding_dist embed1 embed2 = Inr scores
           \<and> length scores = n"
  using assms embedding_dist_ok [of embed1 embed2]
  by (simp add: embedding_dist_return_def embedding_dist_annotation_def bind_err_def)

theorem embedding_dist_length_witness:
  "length [[1, 0], [0, 1], [1, 1::real]] = 3 \<and> length [[0, 1], [0, 1], [2, 2::real]] = 3
   \<and> (\<exists>scores.
          embedding_dist_return [[1, 0], [0, 1], [1, 1]] [[0, 1], [0, 1], [2, 2]]
            = Inr (PyList scores)
          \<and> length scores = 3)
   \<and> (\<exists>scores. embedding_dist_return [[], []] [[], []] = Inr (PyList scores)
          \<and> length scores = 2)"
proof -
  have h: "\<forall>i<3. length ([[1, 0], [0, 1], [1, 1::real]] ! i)
                 = length ([[0, 1], [0, 1], [2, 2::real]] ! i)"
    by (simp add: less_Suc_eq numeral_3_eq_3)
  have k: "\<forall>i<2. length ([[], []::real list] ! i) = length ([[], []::real list] ! i)"
    by simp
  from embedding_dist_length [of "[[1, 0], [0, 1], [1, 1]]" 3 "[[0, 1], [0, 1], [2, 2]]",
      OF _ _ h]
    embedding_dist_length [of "[[], []]" 2 "[[], []]", OF _ _ k]
  show ?thesis by auto
qed

text \<open>
  C9 as it is written fails: two batches of first dimension 2 whose rows have the
  lengths 2 and 1 make \<open>torch.cdist\<close> raise, and no list is returned.
\<close>

theorem embedding_dist_length_counterexample:
  "length [[1, 2], [3, 4::real]] = 2 \<and> length [[1], [2::real]] = 2
   \<and> embedding_dist_return [[1, 2], [3, 4]] [[1], [2]] = Inl RuntimeError
   \<and> \<not> (\<exists>scores. embedding_dist_return [[1, 2], [3, 4]] [[1], [2]] = Inr (PyList scores)
           \<and> length scores = 2)"
  by (simp add: embedding_dist_return_def embedding_dist_eval)

section \<open>The range of the scores\<close>

lemma sq_diff_le: "(a - b)\<^sup>2 \<le> 2 * a\<^sup>2 + 2 * b\<^sup>2" for a b :: real
proof -
  have "0 \<le> (a + b)\<^sup>2" by simp
  then show ?thesis by (simp add: power2_eq_square algebra_simps)
qed

lemma sum_sq_diff_le:
  fixes u v :: "real list"
  assumes "length u = length v"
  shows "(\<Sum>x\<leftarrow>map2 (-) u v. x\<^sup>2) \<le> 2 * (\<Sum>x\<leftarrow>u. x\<^sup>2) + 2 * (\<Sum>x\<leftarrow>v. x\<^sup>2)"
  using assms
proof (induction u v rule: list_induct2)
  case Nil
  then show ?case by simp
next
  case (Cons a u b v)
  from sq_diff_le [of a b] Cons.IH show ?case by simp
qed

lemma sum_sq_nonneg: "0 \<le> (\<Sum>x\<leftarrow>v. x\<^sup>2)" for v :: "real list"
  by (induction v) simp_all

lemma l2_norm_nonneg: "0 \<le> l2_norm v"
  by (simp add: l2_norm_def sum_sq_nonneg)

lemma l2_norm_sq: "(l2_norm v)\<^sup>2 = (\<Sum>x\<leftarrow>v. x\<^sup>2)"
  by (simp add: l2_norm_def sum_sq_nonneg)

lemma l2_distance_nonneg: "0 \<le> l2_distance u v"
  by (simp add: l2_distance_def l2_norm_nonneg)

lemma l2_distance_le_2:
  assumes "length u = length v" and "l2_norm u \<le> 1" and "l2_norm v \<le> 1"
  shows "l2_distance u v \<le> 2"
proof -
  have u: "(\<Sum>x\<leftarrow>u. x\<^sup>2) \<le> 1"
    using assms(2) l2_norm_nonneg [of u] l2_norm_sq [of u]
    by (metis one_power2 power2_le_iff_abs_le abs_of_nonneg zero_le_one)
  have v: "(\<Sum>x\<leftarrow>v. x\<^sup>2) \<le> 1"
    using assms(3) l2_norm_nonneg [of v] l2_norm_sq [of v]
    by (metis one_power2 power2_le_iff_abs_le abs_of_nonneg zero_le_one)
  from sum_sq_diff_le [OF assms(1)] u v
  have "(\<Sum>x\<leftarrow>map2 (-) u v. x\<^sup>2) \<le> 2\<^sup>2" by simp
  then have "sqrt (\<Sum>x\<leftarrow>map2 (-) u v. x\<^sup>2) \<le> sqrt (2\<^sup>2)"
    by (rule real_sqrt_le_mono)
  then show ?thesis by (simp add: l2_distance_def l2_norm_def)
qed

lemma sum_sq_scale: "(\<Sum>x\<leftarrow>map (\<lambda>x. x / c) v. x\<^sup>2) = (\<Sum>x\<leftarrow>v. x\<^sup>2) / c\<^sup>2" for c :: real
  by (induction v) (simp_all add: power_divide add_divide_distrib)

text \<open>
  What \<open>normalize\<close> returns has norm at most one: the norm is one unless the row is
  shorter than \<open>eps\<close>, which the division leaves shorter than one.
\<close>

lemma l2_norm_normalize_row: "l2_norm (normalize_row v) \<le> 1"
proof -
  define c where "c = max (l2_norm v) eps"
  have cpos: "0 < c" by (simp add: c_def eps_def max_def)
  have "l2_norm v \<le> c" by (simp add: c_def)
  then have "(l2_norm v)\<^sup>2 \<le> c\<^sup>2"
    using l2_norm_nonneg [of v] by (simp add: power_mono)
  then have "(\<Sum>x\<leftarrow>v. x\<^sup>2) / c\<^sup>2 \<le> 1"
    using cpos by (simp add: l2_norm_sq)
  then have "sqrt ((\<Sum>x\<leftarrow>v. x\<^sup>2) / c\<^sup>2) \<le> sqrt 1"
    by (rule real_sqrt_le_mono)
  then show ?thesis
    by (simp add: normalize_row_def l2_norm_def sum_sq_scale [symmetric] c_def comp_def)
qed

lemma embedding_dist_range:
  assumes n1: "\<forall>v\<in>set e1. l2_norm v \<le> 1" and n2: "\<forall>v\<in>set e2. l2_norm v \<le> 1"
    and r: "embedding_dist e1 e2 = Inr ss" and s: "s \<in> set ss"
  shows "0 \<le> s \<and> s \<le> 1"
proof -
  from embedding_dist_Inr [OF r] s obtain i where i: "i < length e1"
    and i2: "i < length e2" and len: "length (e1 ! i) = length (e2 ! i)"
    and sv: "s = 1 - l2_distance (e1 ! i) (e2 ! i) / 2"
    by auto
  from i n1 have "l2_norm (e1 ! i) \<le> 1" by simp
  moreover from i2 n2 have "l2_norm (e2 ! i) \<le> 1" by simp
  ultimately have "l2_distance (e1 ! i) (e2 ! i) \<le> 2"
    using len by (simp add: l2_distance_le_2)
  with l2_distance_nonneg [of "e1 ! i" "e2 ! i"] sv show ?thesis by simp
qed

text \<open>
  C2. For every pair of batches of unit-norm embedding vectors, every similarity
  score that \<open>embedding_dist\<close> produces lies in the interval from \<open>-1\<close> to \<open>1\<close>.
\<close>

theorem embedding_dist_unit_range:
  assumes "\<forall>v\<in>set embed1. l2_norm v = 1" and "\<forall>v\<in>set embed2. l2_norm v = 1"
    and "embedding_dist embed1 embed2 = Inr scores"
  shows "\<forall>s\<in>set scores. - 1 \<le> s \<and> s \<le> 1"
proof
  fix s assume "s \<in> set scores"
  with assms embedding_dist_range [of embed1 embed2 scores s]
  have "0 \<le> s \<and> s \<le> 1" by simp
  then show "- 1 \<le> s \<and> s \<le> 1" by simp
qed

theorem embedding_dist_unit_range_witness:
  "l2_norm [1, 0] = 1 \<and> l2_norm [0, 1] = 1
   \<and> embedding_dist [[1, 0]] [[0, 1]] = Inr [1 - sqrt 2 / 2]
   \<and> - 1 \<le> 1 - sqrt 2 / 2 \<and> 1 - sqrt 2 / 2 \<le> (1::real)"
proof -
  have h1: "\<forall>v\<in>set [[1, 0]]. l2_norm v = 1" by (simp add: l2_norm_def)
  have h2: "\<forall>v\<in>set [[0, 1]]. l2_norm v = 1" by (simp add: l2_norm_def)
  have h3: "embedding_dist [[1, 0]] [[0, 1]] = Inr [1 - sqrt 2 / 2]"
    by (simp add: embedding_dist_eval)
  from embedding_dist_unit_range [OF h1 h2 h3] h1 h2 h3 show ?thesis by simp
qed

section \<open>Runs: composition and evaluation\<close>

lemma fst_bind_run:
  "fst (bind_run m f) = (case snd m of Inl e \<Rightarrow> fst m | Inr x \<Rightarrow> fst m @ fst (f x))"
  by (cases m) (simp add: bind_run_def split: sum.splits prod.splits)

lemma snd_bind_run:
  "snd (bind_run m f) = (case snd m of Inl e \<Rightarrow> Inl e | Inr x \<Rightarrow> snd (f x))"
  by (cases m) (simp add: bind_run_def split: sum.splits prod.splits)

lemma bind_unit_run: "bind_run (unit_run x) f = f x"
  by (simp add: bind_run_def unit_run_def split: prod.splits)

lemma bind_lift:
  "bind_run (lift r) f = (case r of Inl e \<Rightarrow> ([], Inl e) | Inr x \<Rightarrow> f x)"
  by (simp add: bind_run_def lift_def split: prod.splits sum.splits)

lemma bind_call:
  "bind_run (call ev r) f =
     (case r of Inl e \<Rightarrow> ([(ev, Some e)], Inl e)
              | Inr x \<Rightarrow> ((ev, None) # fst (f x), snd (f x)))"
  by (simp add: bind_run_def call_def raised_def split: prod.splits sum.splits)

lemmas run_eval =
  bind_run_def call_def lift_def unit_run_def raised_def to_device_def Let_def
  generate_embeddings_def batch_scores_def evaluate_def pixel_normalize_def
  normalize_def normalize_row_def eps_def embedding_dist_eval

lemmas example_eval = example_env_def example_loader_def example_args_def run_eval

section \<open>generate_embeddings\<close>

lemma generate_embeddings_fst:
  "fst (generate_embeddings E net tgt data)
     = [(Forward (pixel_normalize data) tgt, raised (forward E net (pixel_normalize data) tgt))]"
  by (simp add: generate_embeddings_def Let_def bind_call bind_lift unit_run_def raised_def
      split: sum.splits prod.splits)

lemma generate_embeddings_snd:
  "snd (generate_embeddings E net tgt data)
     = bind_err (forward E net (pixel_normalize data) tgt) (\<lambda>(outs, net').
       bind_err (index outs 1) (\<lambda>embed. Inr (embed, net')))"
  by (simp add: generate_embeddings_def Let_def bind_call bind_lift unit_run_def bind_err_def
      split: sum.splits prod.splits)

lemma pixel_normalize_eq: "pixel_normalize data = map (map (\<lambda>v. v / 127.5 - 1)) data"
  by (simp add: pixel_normalize_def field_simps)

text \<open>
  C5. For every image tensor whose pixel values lie between 0 and 255,
  \<open>generate_embeddings\<close> calls the network exactly once, on the image in which every
  pixel value \<open>v\<close> has become \<open>((v / 255) - 0.5) / 0.5 = v / 127.5 - 1\<close>, a value
  between \<open>-1\<close> and \<open>1\<close>, and returns the second output of that call.
\<close>

theorem generate_embeddings_normalizes:
  assumes "\<forall>row\<in>set data. \<forall>v\<in>set row. 0 \<le> v \<and> v \<le> 255"
  shows "\<exists>img.
           img = map (map (\<lambda>v. v / 127.5 - 1)) data
         \<and> img = map (map (\<lambda>v. ((v / 255) - 0.5) / 0.5)) data
         \<and> (\<forall>row\<in>set img. \<forall>x\<in>set row. - 1 \<le> x \<and> x \<le> 1)
         \<and> fst (generate_embeddings E net tgt data)
             = [(Forward img tgt, raised (forward E net img tgt))]
         \<and> snd (generate_embeddings E net tgt data)
             = bind_err (forward E net img tgt) (\<lambda>(outs, net').
               bind_err (index outs 1) (\<lambda>embed. Inr (embed, net')))"
proof -
  have range: "\<forall>row\<in>set (pixel_normalize data). \<forall>x\<in>set row. - 1 \<le> x \<and> x \<le> 1"
    using assms by (auto simp add: pixel_normalize_def field_simps)
  have "pixel_normalize data = map (map (\<lambda>v. ((v / 255) - 0.5) / 0.5)) data"
    by (simp add: pixel_normalize_def)
  with range pixel_normalize_eq [of data] generate_embeddings_fst [of E net tgt data]
    generate_embeddings_snd [of E net tgt data]
  show ?thesis by metis
qed

theorem generate_embeddings_normalizes_witness:
  "fst (generate_embeddings example_env 0 7 [[0, 255, 51]])
     = [(Forward [[- 1, 1, - 3 / 5]] 7, None)]
   \<and> snd (generate_embeddings example_env 0 7 [[0, 255, 51]])
     = Inr ([[- 1, 1, - 3 / 5]], 1)"
proof -
  have h: "\<forall>row\<in>set [[0, 255, 51::real]]. \<forall>v\<in>set row. 0 \<le> v \<and> v \<le> 255" by simp
  from generate_embeddings_normalizes [OF h, of example_env 0 7]
  show ?thesis
    by (simp add: example_env_def raised_def bind_err_def index_def)
qed

section \<open>Aggregation of the scores\<close>

lemma score_loop_snd:
  "snd (score_loop E dev net loader gs is) =
     (case per_batch_scores E dev net loader of
        Inl e \<Rightarrow> Inl e
      | Inr (rs, net') \<Rightarrow> Inr (net', gs @ concat (map fst rs), is @ concat (map snd rs)))"
proof (induction loader arbitrary: net gs "is")
  case Nil
  then show ?case by (simp add: unit_run_def)
next
  case (Cons b rest)
  show ?case
  proof (cases "snd (batch_scores E dev net b)")
    case (Inl e)
    then show ?thesis by (simp add: snd_bind_run)
  next
    case (Inr r)
    obtain net' g i where r: "r = (net', g, i)" by (cases r) auto
    show ?thesis
      using Inr r Cons.IH [of net' "gs @ g" "is @ i"]
      by (simp add: snd_bind_run split: sum.splits)
  qed
qed

lemma per_batch_scores_length:
  "per_batch_scores E dev net loader = Inr (rs, net') \<Longrightarrow> length rs = length loader"
  by (induction loader arbitrary: net rs) (auto split: sum.splits)

lemma evaluate_snd:
  "snd (evaluate E d net loader dev) =
     (case per_batch_scores E dev net loader of
        Inl e \<Rightarrow> Inl e
      | Inr (rs, net') \<Rightarrow>
          (case evaluate_metrics E d (concat (map fst rs)) (concat (map snd rs)) of
             Inl e \<Rightarrow> Inl e
           | Inr metrics \<Rightarrow> Inr (metrics, net')))"
  using score_loop_snd [of E dev net loader "[]" "[]"]
  by (simp add: evaluate_def snd_bind_run bind_call unit_run_def split: sum.splits prod.splits)

text \<open>
  C4. The lists \<open>gscores\<close> and \<open>iscores\<close> that \<open>evaluate\<close> builds are the
  concatenation, in the order of the data loader, of the score lists of the batches,
  each kept in its own order: one pair of lists for every batch, nothing dropped,
  repeated or moved. These are the lists handed to the metrics function.
\<close>

theorem evaluate_scores_concat:
  "snd (score_loop E dev net loader [] []) =
     (case per_batch_scores E dev net loader of
        Inl e \<Rightarrow> Inl e
      | Inr (rs, net') \<Rightarrow> Inr (net', concat (map fst rs), concat (map snd rs)))
   \<and> snd (evaluate E d net loader dev) =
     (case per_batch_scores E dev net loader of
        Inl e \<Rightarrow> Inl e
      | Inr (rs, net') \<Rightarrow>
          (case evaluate_metrics E d (concat (map fst rs)) (concat (map snd rs)) of
             Inl e \<Rightarrow> Inl e
           | Inr metrics \<Rightarrow> Inr (metrics, net')))
   \<and> (\<forall>rs net'. per_batch_scores E dev net loader = Inr (rs, net')
         \<longrightarrow> length rs = length loader)"
  using score_loop_snd [of E dev net loader "[]" "[]"] evaluate_snd [of E d net loader dev]
    per_batch_scores_length [of E dev net loader]
  by (simp split: sum.splits prod.splits)

lemma example_per_batch_scores:
  "per_batch_scores example_env Cpu 0 example_loader
     = Inr ([([1], [0]), ([1, 0], [0, 1])], 8)"
  by (simp add: example_eval)

theorem evaluate_scores_concat_witness:
  "per_batch_scores example_env Cpu 0 example_loader
     = Inr ([([1], [0]), ([1, 0], [0, 1])], 8)
   \<and> length [([1::real], [0::real]), ([1, 0], [0, 1])] = length example_loader
   \<and> snd (score_loop example_env Cpu 0 example_loader [] []) = Inr (8, [1, 1, 0], [0, 0, 1])
   \<and> snd (evaluate example_env ''result/base_model'' 0 example_loader Cpu)
       = Inr ((2, 1), 8)"
  using evaluate_scores_concat [of example_env Cpu 0 example_loader "''result/base_model''"]
    example_per_batch_scores
  by (simp add: example_env_def)

section \<open>Outcomes\<close>

lemma snd_call: "snd (call ev r) = r"
  by (simp add: call_def)

lemma snd_lift: "snd (lift r) = r"
  by (simp add: lift_def)

lemma snd_unit_run: "snd (unit_run x) = Inr x"
  by (simp add: unit_run_def)

lemma batch_scores_snd:
  "snd (batch_scores E dev net (gen, imp)) =
     bind_err (index (target gen) 0) (\<lambda>t0.
     bind_err (index (target imp) 1) (\<lambda>t1.
     bind_err (snd (generate_embeddings E net t0 (masked gen))) (\<lambda>(e1, net1).
     bind_err (snd (generate_embeddings E net1 t0 (unmasked gen))) (\<lambda>(e2, net2).
     bind_err (snd (generate_embeddings E net2 t1 (masked imp))) (\<lambda>(e3, net3).
     bind_err (snd (generate_embeddings E net3 t1 (unmasked imp))) (\<lambda>(e4, net4).
     bind_err (embedding_dist (normalize e1) (normalize e2)) (\<lambda>g_dist.
     bind_err (embedding_dist (normalize e3) (normalize e4)) (\<lambda>i_dist.
     Inr (net4, g_dist, i_dist)))))))))"
  by (simp add: batch_scores_def Let_def to_device_def snd_bind_run snd_lift snd_unit_run
      bind_err_def split: sum.splits prod.splits)

lemma main_snd:
  "snd (main E a) =
     bind_err (set_logger E (os_path_join (model_dir a) ''test.log'')) (\<lambda>u.
     bind_err (create_dataloader E (data_dir a) 64 2) (\<lambda>(train_loader, test_loader).
     bind_err (FocusFace E 601) (\<lambda>net0.
     bind_err (load_checkpoint E (os_path_join (model_dir a) (pretrained a @ ''.pth.tar''))
                 net0) (\<lambda>net1.
     bind_err (snd (evaluate E (model_dir a) net1 test_loader
                      (if cuda_is_available E then Cuda else Cpu))) (\<lambda>(test_metrics, net2).
     save_dict_to_json E test_metrics
       (os_path_join (model_dir a) (''test_metrics_'' @ pretrained a @ ''.json'')))))))"
  by (simp add: main_def Let_def to_device_def snd_bind_run snd_call snd_unit_run
      bind_err_def split: sum.splits prod.splits)

section \<open>Exceptions are not caught\<close>

lemma uncaught_unit: "uncaught (unit_run x)"
  by (simp add: uncaught_def unit_run_def)

lemma uncaught_lift: "uncaught (lift r)"
  by (simp add: uncaught_def lift_def)

lemma uncaught_call: "uncaught (call ev r)"
  by (auto simp add: uncaught_def call_def raised_def split: sum.splits)

lemma uncaught_bind:
  assumes m: "uncaught m" and f: "\<And>x. uncaught (f x)"
  shows "uncaught (bind_run m f)"
proof (cases "snd m")
  case (Inl e)
  then have "bind_run m f = (fst m, Inl e)"
    by (cases m) (simp add: bind_run_def)
  with m Inl show ?thesis by (simp add: uncaught_def)
next
  case (Inr x)
  have clean: "\<forall>i<length (fst m). snd (fst m ! i) = None"
  proof (intro allI impI)
    fix i assume "i < length (fst m)"
    with m Inr show "snd (fst m ! i) = None"
      by (cases "snd (fst m ! i)") (auto simp add: uncaught_def)
  qed
  have eq: "bind_run m f = (fst m @ fst (f x), snd (f x))"
    using Inr by (cases m) (simp add: bind_run_def split: prod.splits)
  show ?thesis
    unfolding eq uncaught_def
  proof (intro allI impI)
    fix i e
    assume i: "i < length (fst (fst m @ fst (f x), snd (f x)))"
      and e: "snd (fst (fst m @ fst (f x), snd (f x)) ! i) = Some e"
    show "Suc i = length (fst (fst m @ fst (f x), snd (f x)))
            \<and> snd (fst m @ fst (f x), snd (f x)) = Inl e"
    proof (cases "i < length (fst m)")
      case True
      with clean e show ?thesis by (simp add: nth_append)
    next
      case False
      with i e have "i - length (fst m) < length (fst (f x))"
        and "snd (fst (f x) ! (i - length (fst m))) = Some e"
        by (simp_all add: nth_append)
      with f [of x] have "Suc (i - length (fst m)) = length (fst (f x)) \<and> snd (f x) = Inl e"
        by (simp add: uncaught_def)
      with False show ?thesis by auto
    qed
  qed
qed

lemma uncaught_case_prod:
  "(\<And>a b. uncaught (f a b)) \<Longrightarrow> uncaught (case p of (a, b) \<Rightarrow> f a b)"
  by (cases p) simp

lemmas uncaught_intros =
  uncaught_bind uncaught_call uncaught_lift uncaught_unit uncaught_case_prod

lemma uncaught_generate_embeddings: "uncaught (generate_embeddings E net tgt data)"
  unfolding generate_embeddings_def Let_def
  by (intro uncaught_intros)

lemma uncaught_batch_scores: "uncaught (batch_scores E dev net b)"
  unfolding batch_scores_def Let_def
  by (intro uncaught_intros uncaught_generate_embeddings)

lemma uncaught_score_loop: "uncaught (score_loop E dev net loader gs is)"
  by (induction loader arbitrary: net gs "is")
     (auto intro!: uncaught_intros uncaught_batch_scores)

lemma uncaught_evaluate: "uncaught (evaluate E d net loader dev)"
  unfolding evaluate_def
  by (intro uncaught_intros uncaught_score_loop)

lemma uncaught_main: "uncaught (main E a)"
  unfolding main_def Let_def
  by (intro uncaught_intros uncaught_evaluate; simp add: uncaught_intros)

text \<open>
  C6. Neither \<open>evaluate\<close> nor the main procedure catches an exception. In every run
  a library call that raised is the last call the run made (nothing is retried and
  nothing runs after it), and its exception is the outcome of the run. The outcome
  of a batch, of \<open>evaluate\<close> and of the main procedure is the first exception that
  one of their steps raises, in the order of the steps, whether it comes from a
  library call (a missing checkpoint file) or from an operation on tensors (an
  index out of range, a shape mismatch in \<open>torch.cdist\<close>); they return only when no
  step raised.
\<close>

theorem no_exception_caught:
  "uncaught (evaluate E dir net data_loader dev) \<and> uncaught (main E a)
   \<and> snd (batch_scores E dev net (gen, imp)) =
       bind_err (index (target gen) 0) (\<lambda>t0.
       bind_err (index (target imp) 1) (\<lambda>t1.
       bind_err (snd (generate_embeddings E net t0 (masked gen))) (\<lambda>(e1, net1).
       bind_err (snd (generate_embeddings E net1 t0 (unmasked gen))) (\<lambda>(e2, net2).
       bind_err (snd (generate_embeddings E net2 t1 (masked imp))) (\<lambda>(e3, net3).
       bind_err (snd (generate_embeddings E net3 t1 (unmasked imp))) (\<lambda>(e4, net4).
       bind_err (embedding_dist (normalize e1) (normalize e2)) (\<lambda>g_dist.
       bind_err (embedding_dist (normalize e3) (normalize e4)) (\<lambda>i_dist.
       Inr (net4, g_dist, i_dist)))))))))
   \<and> (\<forall>e b rest. snd (batch_scores E dev net b) = Inl e
          \<longrightarrow> per_batch_scores E dev net (b # rest) = Inl e)
   \<and> (\<forall>e. per_batch_scores E dev net data_loader = Inl e
          \<longrightarrow> snd (evaluate E dir net data_loader dev) = Inl e)
   \<and> (\<forall>rs net' e. per_batch_scores E dev net data_loader = Inr (rs, net')
          \<and> evaluate_metrics E dir (concat (map fst rs)) (concat (map snd rs)) = Inl e
          \<longrightarrow> snd (evaluate E dir net data_loader dev) = Inl e)
   \<and> snd (main E a) =
       bind_err (set_logger E (os_path_join (model_dir a) ''test.log'')) (\<lambda>u.
       bind_err (create_dataloader E (data_dir a) 64 2) (\<lambda>(train_loader, test_loader).
       bind_err (FocusFace E 601) (\<lambda>net0.
       bind_err (load_checkpoint E (os_path_join (model_dir a) (pretrained a @ ''.pth.tar''))
                   net0) (\<lambda>net1.
       bind_err (snd (evaluate E (model_dir a) net1 test_loader
                        (if cuda_is_available E then Cuda else Cpu))) (\<lambda>(test_metrics, net2).
       save_dict_to_json E test_metrics
         (os_path_join (model_dir a) (''test_metrics_'' @ pretrained a @ ''.json'')))))))"
  using batch_scores_snd [of E dev net gen imp] main_snd [of E a]
  by (simp add: uncaught_evaluate uncaught_main evaluate_snd)

lemma example_missing_checkpoint:
  "fst (main (example_env\<lparr>load_checkpoint := \<lambda>p net. Inl (LibraryError ''No such file'')\<rparr>)
          example_args)
     = [(ManualSeed 230, None),
        (SetLogger ''result/base_model/test.log'', None),
        (LogInfo ''Loading the datasets ...'', None),
        (CreateDataloader ''data/val'' 64 2, None),
        (LogInfo ''- Done.'', None),
        (NewFocusFace 601, None),
        (LogInfo ''Loading parameters from result/base_model/last.pth.tar'', None),
        (LoadCheckpoint ''result/base_model/last.pth.tar'',
           Some (LibraryError ''No such file''))]"
  by (simp add: main_def os_path_join_def example_eval)

theorem no_exception_caught_witness:
  "snd (fst (main (example_env\<lparr>load_checkpoint :=
                     \<lambda>p net. Inl (LibraryError ''No such file'')\<rparr>) example_args) ! 7)
     = Some (LibraryError ''No such file'')
   \<and> length (fst (main (example_env\<lparr>load_checkpoint :=
                     \<lambda>p net. Inl (LibraryError ''No such file'')\<rparr>) example_args)) = 8
   \<and> snd (main (example_env\<lparr>load_checkpoint :=
                     \<lambda>p net. Inl (LibraryError ''No such file'')\<rparr>) example_args)
     = Inl (LibraryError ''No such file'')
   \<and> snd (evaluate (example_env\<lparr>forward :=
                     \<lambda>net img t. Inr ([[], map (\<lambda>row. replicate (Suc net) 1) img], Suc net)\<rparr>)
              ''result/base_model'' 0 example_loader Cpu)
     = Inl RuntimeError
   \<and> snd (main (example_env\<lparr>forward :=
                     \<lambda>net img t. Inr ([[], map (\<lambda>row. replicate (Suc net) 1) img], Suc net)\<rparr>)
              example_args)
     = Inl RuntimeError"
proof -
  let ?m = "main (example_env\<lparr>load_checkpoint :=
                    \<lambda>p net. Inl (LibraryError ''No such file'')\<rparr>) example_args"
  have i: "7 < length (fst ?m)" and l: "length (fst ?m) = 8"
    and e: "snd (fst ?m ! 7) = Some (LibraryError ''No such file'')"
    by (simp_all add: example_missing_checkpoint)
  have "uncaught ?m"
    by (rule no_exception_caught [where E = "example_env\<lparr>load_checkpoint :=
      \<lambda>p net. Inl (LibraryError ''No such file'')\<rparr>" and a = example_args,
      THEN conjunct2, THEN conjunct1])
  with i e have m: "snd ?m = Inl (LibraryError ''No such file'')"
    unfolding uncaught_def by blast
  let ?F = "example_env\<lparr>forward :=
      \<lambda>net img t. Inr ([[], map (\<lambda>row. replicate (Suc net) 1) img], Suc net)\<rparr>"
  note F = no_exception_caught [where E = ?F and dev = Cpu and net = 0
      and data_loader = example_loader and dir = "''result/base_model''"
      and a = example_args]
  have pb: "per_batch_scores ?F Cpu 0 example_loader = Inl RuntimeError"
    by (simp add: example_eval)
  have "\<forall>e. per_batch_scores ?F Cpu 0 example_loader = Inl e
      \<longrightarrow> snd (evaluate ?F ''result/base_model'' 0 example_loader Cpu) = Inl e"
    by (rule F [THEN conjunct2, THEN conjunct2, THEN conjunct2, THEN conjunct2,
      THEN conjunct1])
  with pb have ev: "snd (evaluate ?F ''result/base_model'' 0 example_loader Cpu)
      = Inl RuntimeError"
    by blast
  have "snd (main ?F example_args) =
       bind_err (set_logger ?F (os_path_join (model_dir example_args) ''test.log'')) (\<lambda>u.
       bind_err (create_dataloader ?F (data_dir example_args) 64 2)
         (\<lambda>(train_loader, test_loader).
       bind_err (FocusFace ?F 601) (\<lambda>net0.
       bind_err (load_checkpoint ?F
                   (os_path_join (model_dir example_args) (pretrained example_args @ ''.pth.tar''))
                   net0) (\<lambda>net1.
       bind_err (snd (evaluate ?F (model_dir example_args) net1 test_loader
                        (if cuda_is_available ?F then Cuda else Cpu))) (\<lambda>(test_metrics, net2).
       save_dict_to_json ?F test_metrics
         (os_path_join (model_dir example_args)
            (''test_metrics_'' @ pretrained example_args @ ''.json'')))))))"
    by (rule F [THEN conjunct2, THEN conjunct2, THEN conjunct2, THEN conjunct2,
      THEN conjunct2, THEN conjunct2])
  with ev have "snd (main ?F example_args) = Inl RuntimeError"
    by (simp add: example_env_def example_args_def bind_err_def)
  with m e l ev show ?thesis by simp
qed

section \<open>Plans of a run\<close>

lemma observes_unit: "proj [] = [] \<Longrightarrow> observes proj [] (unit_run x)"
  by (simp add: observes_def unit_run_def)

lemma observes_bind:
  assumes hom: "\<And>es es'. proj (es @ es') = proj es @ proj es'"
    and m: "observes proj T1 m"
    and f: "\<And>y. snd m = Inr y \<Longrightarrow> observes proj T2 (f y)"
  shows "observes proj (T1 @ T2) (bind_run m f)"
proof (cases "snd m")
  case (Inl e)
  with m show ?thesis
    by (auto simp add: observes_def fst_bind_run snd_bind_run intro: prefix_order.trans)
next
  case (Inr y)
  with m have "proj (fst m) = T1" by (simp add: observes_def)
  with Inr f [OF Inr] show ?thesis
    by (simp add: observes_def fst_bind_run snd_bind_run hom)
qed

lemma observes_call:
  assumes hom: "\<And>es es'. proj (es @ es') = proj es @ proj es'"
    and ev: "proj [(ev, raised r)] = xs"
    and f: "\<And>y. r = Inr y \<Longrightarrow> observes proj T (f y)"
  shows "observes proj (xs @ T) (bind_run (call ev r) f)"
proof (rule observes_bind [OF hom])
  show "observes proj xs (call ev r)"
    using ev by (auto simp add: observes_def call_def)
  show "\<And>y. snd (call ev r) = Inr y \<Longrightarrow> observes proj T (f y)"
    using f by (simp add: call_def)
qed

lemma observes_call_dep:
  assumes hom: "\<And>es es'. proj (es @ es') = proj es @ proj es'"
    and ev: "proj [(ev, raised r)] = xs"
    and f: "\<And>y. r = Inr y \<Longrightarrow> observes proj (T y) (f y)"
  shows "observes proj (xs @ (case r of Inl e \<Rightarrow> D | Inr y \<Rightarrow> T y)) (bind_run (call ev r) f)"
proof (cases r)
  case (Inl e)
  with ev show ?thesis
    by (auto simp add: observes_def bind_call raised_def)
next
  case (Inr y)
  from observes_call [of proj ev r xs "T y" f, OF hom ev] f Inr
  show ?thesis by simp
qed

lemma observes_case_prod:
  "(\<And>a b. p = (a, b) \<Longrightarrow> observes proj T (f a b))
     \<Longrightarrow> observes proj T (case p of (a, b) \<Rightarrow> f a b)"
  by (cases p) simp

lemma observes_device:
  assumes "proj [] = []" and "proj [(CudaManualSeed 230, None)] = []"
  shows "observes proj []
           (if c then bind_run (call (CudaManualSeed 230) (Inr ())) (\<lambda>_. unit_run Cuda)
            else unit_run Cpu)"
  using assms by (simp add: observes_def bind_call unit_run_def)

lemma files_simps [simp]:
  "files [] = []"
  "files ((ev, out) # es) = file_of ev @ files es"
  "files (es @ es') = files es @ files es'"
  by (simp_all add: files_def)

lemma steps_simps [simp]:
  "steps [] = []"
  "steps ((ev, out) # es) = step_of ev @ steps es"
  "steps (es @ es') = steps es @ steps es'"
  by (simp_all add: steps_def)

lemma files_append: "files (es @ es') = files es @ files es'"
  by simp

lemma steps_append: "steps (es @ es') = steps es @ steps es'"
  by simp

lemmas files_call = observes_call [where proj = files, OF files_append]
lemmas files_bind = observes_bind [where proj = files, OF files_append]
lemmas steps_call = observes_call [where proj = steps, OF steps_append]
lemmas steps_bind = observes_bind [where proj = steps, OF steps_append]

lemma files_generate_embeddings [simp]: "files (fst (generate_embeddings E net tgt data)) = []"
  by (simp add: generate_embeddings_fst)

lemma steps_generate_embeddings [simp]:
  "steps (fst (generate_embeddings E net tgt data)) = [EmbedImages]"
  by (simp add: generate_embeddings_fst)

lemma files_batch_scores [simp]: "files (fst (batch_scores E dev net b)) = []"
  by (simp add: batch_scores_def Let_def fst_bind_run lift_def unit_run_def
      split: sum.splits prod.splits)

lemma steps_batch_scores:
  "set (steps (fst (batch_scores E dev net b))) \<subseteq> {EmbedImages}
     \<and> length (steps (fst (batch_scores E dev net b))) \<le> 4
     \<and> (\<forall>r. snd (batch_scores E dev net b) = Inr r
            \<longrightarrow> length (steps (fst (batch_scores E dev net b))) = 4)"
  by (simp add: batch_scores_def Let_def fst_bind_run snd_bind_run lift_def unit_run_def
      split: sum.splits prod.splits)

lemma steps_score_loop:
  "set (steps (fst (score_loop E dev net loader gs is))) \<subseteq> {EmbedImages}
     \<and> length (steps (fst (score_loop E dev net loader gs is))) \<le> 4 * length loader
     \<and> (\<forall>r. snd (score_loop E dev net loader gs is) = Inr r
            \<longrightarrow> length (steps (fst (score_loop E dev net loader gs is))) = 4 * length loader)"
proof (induction loader arbitrary: net gs "is")
  case Nil
  then show ?case by (simp add: unit_run_def)
next
  case (Cons b rest)
  show ?case
  proof (cases "snd (batch_scores E dev net b)")
    case (Inl e)
    with steps_batch_scores [of E dev net b] show ?thesis
      by (simp add: fst_bind_run snd_bind_run)
  next
    case (Inr r)
    obtain net' g i where r: "r = (net', g, i)" by (cases r) auto
    from Inr r steps_batch_scores [of E dev net b] Cons.IH [of net' "gs @ g" "is @ i"]
    show ?thesis
      by (simp add: fst_bind_run snd_bind_run)
  qed
qed

lemma files_score_loop [simp]: "files (fst (score_loop E dev net loader gs is)) = []"
  by (induction loader arbitrary: net gs "is")
     (simp_all add: unit_run_def fst_bind_run split: sum.splits prod.splits)

lemma files_evaluate [simp]: "files (fst (evaluate E d net loader dev)) = []"
  by (simp add: evaluate_def fst_bind_run bind_call unit_run_def split: sum.splits prod.splits)

lemma all_same_replicate: "set xs \<subseteq> {x} \<Longrightarrow> xs = replicate (length xs) x"
  by (induction xs) auto

lemma prefix_replicate: "k \<le> n \<Longrightarrow> prefix (replicate k x) (replicate n x @ ys)"
proof -
  assume "k \<le> n"
  then have "replicate n x = replicate k x @ replicate (n - k) x"
    by (simp add: replicate_add [symmetric])
  then show ?thesis by simp
qed

lemma observes_steps_evaluate:
  "observes steps (replicate (4 * length loader) EmbedImages @ [ComputeMetrics])
     (evaluate E d net loader dev)"
proof -
  let ?L = "score_loop E dev net loader [] []"
  from steps_score_loop [of E dev net loader "[]" "[]"]
  have rep: "steps (fst ?L) = replicate (length (steps (fst ?L))) EmbedImages"
    and le: "length (steps (fst ?L)) \<le> 4 * length loader"
    and ok: "\<And>r. snd ?L = Inr r \<Longrightarrow> length (steps (fst ?L)) = 4 * length loader"
    by (auto intro: all_same_replicate)
  show ?thesis
  proof (cases "snd ?L")
    case (Inl e)
    then have "steps (fst (evaluate E d net loader dev)) = steps (fst ?L)"
      and "snd (evaluate E d net loader dev) = Inl e"
      by (simp_all add: evaluate_def fst_bind_run snd_bind_run)
    with rep le show ?thesis
      unfolding observes_def by (metis prefix_replicate sum.distinct(1))
  next
    case (Inr r)
    obtain net' gs "is" where r: "r = (net', gs, is)" by (cases r) auto
    from ok [OF Inr] rep
    have full: "steps (fst ?L) = replicate (4 * length loader) EmbedImages" by simp
    show ?thesis
      using Inr r full
      by (simp add: observes_def evaluate_def fst_bind_run snd_bind_run bind_call unit_run_def
          split: sum.splits)
  qed
qed

lemma observes_files_evaluate: "observes files [] (evaluate E d net loader dev)"
  by (simp add: observes_def)

lemma main_files_plan:
  "observes files
     ([] @ [] @ [LogFile (os_path_join (model_dir a) ''test.log'')] @ [] @ [] @ [] @ [] @ []
        @ [CheckpointFile (os_path_join (model_dir a) (pretrained a @ ''.pth.tar''))] @ [] @ []
        @ [MetricsFile (os_path_join (model_dir a) (''test_metrics_'' @ pretrained a @ ''.json''))]
        @ [])
     (main E a)"
  unfolding main_def Let_def
  apply (rule files_call, simp (no_asm))
  apply (rule files_bind)
   apply (rule observes_device; simp (no_asm))
  apply (rule files_call, simp (no_asm))
  apply (rule files_call, simp (no_asm))
  apply (rule files_call, simp (no_asm))
  apply (rule observes_case_prod)
  apply (rule files_call, simp (no_asm))
  apply (rule files_call, simp (no_asm))
  apply (rule files_call, simp (no_asm))
  apply (rule files_call, simp (no_asm))
  apply (rule files_call, simp (no_asm))
  apply (rule files_bind)
   apply (rule observes_files_evaluate)
  apply (rule observes_case_prod)
  apply (rule files_call, simp (no_asm))
  apply (rule observes_unit, simp (no_asm))
  done

lemmas steps_call_dep = observes_call_dep [where proj = steps, OF steps_append]

lemma main_steps_plan:
  "observes steps
     ([] @ [] @ [] @ [] @ [LoadDataset] @
        (case create_dataloader E (data_dir a) 64 2 of
           Inl e \<Rightarrow> [LoadModel, LoadWeights, ComputeMetrics, Serialize]
         | Inr y \<Rightarrow> [] @ [LoadModel] @ [] @ [LoadWeights] @ [] @
                    (replicate (4 * length (snd y)) EmbedImages @ [ComputeMetrics])
                    @ [Serialize] @ []))
     (main E a)"
  unfolding main_def Let_def
  apply (rule steps_call, simp (no_asm))
  apply (rule steps_bind)
   apply (rule observes_device; simp (no_asm))
  apply (rule steps_call, simp (no_asm))
  apply (rule steps_call, simp (no_asm))
  apply (rule steps_call_dep, simp (no_asm))
  apply (rule observes_case_prod)
  apply hypsubst
  apply (simp (no_asm) only: snd_conv)
  apply (rule steps_call, simp (no_asm))
  apply (rule steps_call, simp (no_asm))
  apply (rule steps_call, simp (no_asm))
  apply (rule steps_call, simp (no_asm))
  apply (rule steps_call, simp (no_asm))
  apply (rule steps_bind)
   apply (rule observes_steps_evaluate)
  apply (rule observes_case_prod)
  apply (rule steps_call, simp (no_asm))
  apply (rule observes_unit, simp (no_asm))
  done

lemma example_main_ok: "snd (main example_env example_args) = Inr ()"
  by (simp add: main_def os_path_join_def example_eval)

text \<open>
  C7. For every value of the arguments \<open>model_dir\<close> and \<open>pretrained\<close>, the main
  procedure directs logging to \<open>join(model_dir, "test.log")\<close>, reads the checkpoint
  from \<open>join(model_dir, pretrained + ".pth.tar")\<close> and writes the metrics to
  \<open>join(model_dir, "test_metrics_" + pretrained + ".json")\<close>. These are the files
  it touches, in this order, in a run that returns, and a run that raises touches
  the first ones of them. They are the paths that it gives to \<open>set_logger\<close>, to
  \<open>load_checkpoint\<close> (with the model it created) and to \<open>save_dict_to_json\<close> (with
  the metrics that \<open>evaluate\<close> returned): the run returns exactly when these calls
  and the steps between them return, and a failure of one of them at its path is
  the outcome of the run.
\<close>

theorem main_paths:
  "prefix (files (fst (main E a)))
     [LogFile (os_path_join (model_dir a) ''test.log''),
      CheckpointFile (os_path_join (model_dir a) (pretrained a @ ''.pth.tar'')),
      MetricsFile (os_path_join (model_dir a) (''test_metrics_'' @ pretrained a @ ''.json''))]
   \<and> (snd (main E a) = Inr () \<longrightarrow>
        files (fst (main E a)) =
          [LogFile (os_path_join (model_dir a) ''test.log''),
           CheckpointFile (os_path_join (model_dir a) (pretrained a @ ''.pth.tar'')),
           MetricsFile (os_path_join (model_dir a) (''test_metrics_'' @ pretrained a @ ''.json''))])
   \<and> (snd (main E a) = Inr () \<longleftrightarrow>
        (\<exists>train_loader test_loader net0 net1 metrics net2.
            set_logger E (os_path_join (model_dir a) ''test.log'') = Inr ()
          \<and> create_dataloader E (data_dir a) 64 2 = Inr (train_loader, test_loader)
          \<and> FocusFace E 601 = Inr net0
          \<and> load_checkpoint E (os_path_join (model_dir a) (pretrained a @ ''.pth.tar'')) net0 = Inr net1
          \<and> snd (evaluate E (model_dir a) net1 test_loader
                   (if cuda_is_available E then Cuda else Cpu)) = Inr (metrics, net2)
          \<and> save_dict_to_json E metrics (os_path_join (model_dir a) (''test_metrics_'' @ pretrained a @ ''.json'')) = Inr ()))
   \<and> (\<forall>e. set_logger E (os_path_join (model_dir a) ''test.log'') = Inl e \<longrightarrow> snd (main E a) = Inl e)
   \<and> (\<forall>train_loader test_loader net0 e.
          set_logger E (os_path_join (model_dir a) ''test.log'') = Inr ()
        \<and> create_dataloader E (data_dir a) 64 2 = Inr (train_loader, test_loader)
        \<and> FocusFace E 601 = Inr net0
        \<and> load_checkpoint E (os_path_join (model_dir a) (pretrained a @ ''.pth.tar'')) net0 = Inl e
        \<longrightarrow> snd (main E a) = Inl e)
   \<and> (\<forall>train_loader test_loader net0 net1 metrics net2 e.
          set_logger E (os_path_join (model_dir a) ''test.log'') = Inr ()
        \<and> create_dataloader E (data_dir a) 64 2 = Inr (train_loader, test_loader)
        \<and> FocusFace E 601 = Inr net0
        \<and> load_checkpoint E (os_path_join (model_dir a) (pretrained a @ ''.pth.tar'')) net0 = Inr net1
        \<and> snd (evaluate E (model_dir a) net1 test_loader
                 (if cuda_is_available E then Cuda else Cpu)) = Inr (metrics, net2)
        \<and> save_dict_to_json E metrics (os_path_join (model_dir a) (''test_metrics_'' @ pretrained a @ ''.json'')) = Inl e
        \<longrightarrow> snd (main E a) = Inl e)"
proof -
  have plan: "prefix (files (fst (main E a)))
     [LogFile (os_path_join (model_dir a) ''test.log''),
      CheckpointFile (os_path_join (model_dir a) (pretrained a @ ''.pth.tar'')),
      MetricsFile (os_path_join (model_dir a) (''test_metrics_'' @ pretrained a @ ''.json''))]
   \<and> (snd (main E a) = Inr () \<longrightarrow>
        files (fst (main E a)) =
          [LogFile (os_path_join (model_dir a) ''test.log''),
           CheckpointFile (os_path_join (model_dir a) (pretrained a @ ''.pth.tar'')),
           MetricsFile (os_path_join (model_dir a) (''test_metrics_'' @ pretrained a @ ''.json''))])"
    using main_files_plan [of a E] by (simp add: observes_def)
  have calls: "(snd (main E a) = Inr () \<longleftrightarrow>
        (\<exists>train_loader test_loader net0 net1 metrics net2.
            set_logger E (os_path_join (model_dir a) ''test.log'') = Inr ()
          \<and> create_dataloader E (data_dir a) 64 2 = Inr (train_loader, test_loader)
          \<and> FocusFace E 601 = Inr net0
          \<and> load_checkpoint E (os_path_join (model_dir a) (pretrained a @ ''.pth.tar'')) net0 = Inr net1
          \<and> snd (evaluate E (model_dir a) net1 test_loader
                   (if cuda_is_available E then Cuda else Cpu)) = Inr (metrics, net2)
          \<and> save_dict_to_json E metrics (os_path_join (model_dir a) (''test_metrics_'' @ pretrained a @ ''.json'')) = Inr ()))"
    by (auto simp add: main_snd bind_err_def split: sum.splits prod.splits)
  have fails: "(\<forall>e. set_logger E (os_path_join (model_dir a) ''test.log'') = Inl e \<longrightarrow> snd (main E a) = Inl e)
   \<and> (\<forall>train_loader test_loader net0 e.
          set_logger E (os_path_join (model_dir a) ''test.log'') = Inr ()
        \<and> create_dataloader E (data_dir a) 64 2 = Inr (train_loader, test_loader)
        \<and> FocusFace E 601 = Inr net0
        \<and> load_checkpoint E (os_path_join (model_dir a) (pretrained a @ ''.pth.tar'')) net0 = Inl e
        \<longrightarrow> snd (main E a) = Inl e)
   \<and> (\<forall>train_loader test_loader net0 net1 metrics net2 e.
          set_logger E (os_path_join (model_dir a) ''test.log'') = Inr ()
        \<and> create_dataloader E (data_dir a) 64 2 = Inr (train_loader, test_loader)
        \<and> FocusFace E 601 = Inr net0
        \<and> load_checkpoint E (os_path_join (model_dir a) (pretrained a @ ''.pth.tar'')) net0 = Inr net1
        \<and> snd (evaluate E (model_dir a) net1 test_loader
                 (if cuda_is_available E then Cuda else Cpu)) = Inr (metrics, net2)
        \<and> save_dict_to_json E metrics (os_path_join (model_dir a) (''test_metrics_'' @ pretrained a @ ''.json'')) = Inl e
        \<longrightarrow> snd (main E a) = Inl e)"
    by (simp add: main_snd bind_err_def)
  from plan calls fails show ?thesis by blast
qed

theorem main_paths_witness:
  "snd (main example_env example_args) = Inr ()
   \<and> files (fst (main example_env example_args))
     = [LogFile ''result/base_model/test.log'',
        CheckpointFile ''result/base_model/last.pth.tar'',
        MetricsFile ''result/base_model/test_metrics_last.json'']
   \<and> snd (main (example_env\<lparr>set_logger := \<lambda>p.
               if p = ''result/base_model/test.log''
               then Inl (LibraryError ''Permission denied'') else Inr ()\<rparr>) example_args)
     = Inl (LibraryError ''Permission denied'')"
proof -
  let ?G = "example_env\<lparr>set_logger := \<lambda>p.
               if p = ''result/base_model/test.log''
               then Inl (LibraryError ''Permission denied'') else Inr ()\<rparr>"
  have "set_logger ?G (os_path_join (model_dir example_args) ''test.log'')
          = Inl (LibraryError ''Permission denied'')"
    by (simp add: example_args_def os_path_join_def)
  with main_paths [of ?G example_args]
  have "snd (main ?G example_args) = Inl (LibraryError ''Permission denied'')"
    by blast
  with main_paths [of example_env example_args] example_main_ok
  show ?thesis
    by (simp add: example_args_def os_path_join_def)
qed

lemma generate_embeddings_fst_ok:
  assumes "snd (generate_embeddings E net tgt data) = Inr r"
  shows "fst (generate_embeddings E net tgt data) = [(Forward (pixel_normalize data) tgt, None)]"
  using assms
  by (auto simp add: generate_embeddings_fst generate_embeddings_snd bind_err_def raised_def
      split: sum.splits)

lemma batch_scores_ok:
  assumes "snd (batch_scores E dev net (gen, imp)) = Inr (net', g_dist, i_dist)"
  shows "\<exists>e1 n1 e2 n2 e3 n3 e4.
           0 < length (target gen) \<and> 1 < length (target imp)
         \<and> snd (generate_embeddings E net (target gen ! 0) (masked gen)) = Inr (e1, n1)
         \<and> snd (generate_embeddings E n1 (target gen ! 0) (unmasked gen)) = Inr (e2, n2)
         \<and> snd (generate_embeddings E n2 (target imp ! 1) (masked imp)) = Inr (e3, n3)
         \<and> snd (generate_embeddings E n3 (target imp ! 1) (unmasked imp)) = Inr (e4, net')
         \<and> embedding_dist (normalize e1) (normalize e2) = Inr g_dist
         \<and> embedding_dist (normalize e3) (normalize e4) = Inr i_dist"
  using assms
  by (auto simp add: batch_scores_snd bind_err_def index_def split: sum.splits if_splits)

lemma batch_scores_fst_ok:
  assumes "snd (batch_scores E dev net (gen, imp)) = Inr r"
  shows "fst (batch_scores E dev net (gen, imp))
           = map (\<lambda>ev. (ev, None)) (batch_forwards (gen, imp))"
proof -
  obtain net' g i where r: "r = (net', g, i)" by (cases r) auto
  from batch_scores_ok [OF assms [unfolded r]] obtain e1 n1 e2 n2 e3 n3 e4 where
    t0: "0 < length (target gen)" and t1: "1 < length (target imp)"
    and g1: "snd (generate_embeddings E net (target gen ! 0) (masked gen)) = Inr (e1, n1)"
    and g2: "snd (generate_embeddings E n1 (target gen ! 0) (unmasked gen)) = Inr (e2, n2)"
    and g3: "snd (generate_embeddings E n2 (target imp ! 1) (masked imp)) = Inr (e3, n3)"
    and g4: "snd (generate_embeddings E n3 (target imp ! 1) (unmasked imp)) = Inr (e4, net')"
    and d1: "embedding_dist (normalize e1) (normalize e2) = Inr g"
    and d2: "embedding_dist (normalize e3) (normalize e4) = Inr i"
    by blast
  show ?thesis
    using t0 t1 g1 g2 g3 g4 d1 d2 generate_embeddings_fst_ok [OF g1]
      generate_embeddings_fst_ok [OF g2] generate_embeddings_fst_ok [OF g3]
      generate_embeddings_fst_ok [OF g4]
    by (simp add: batch_scores_def Let_def to_device_def fst_bind_run snd_bind_run lift_def
        unit_run_def index_def batch_forwards_def)
qed

lemma score_loop_fst_ok:
  "per_batch_scores E dev net loader = Inr (rs, net')
     \<Longrightarrow> fst (score_loop E dev net loader gs is)
           = map (\<lambda>ev. (ev, None)) (concat (map batch_forwards loader))"
proof (induction loader arbitrary: net rs gs "is")
  case Nil
  then show ?case by (simp add: unit_run_def)
next
  case (Cons b rest)
  obtain gen imp where b: "b = (gen, imp)" by (cases b) auto
  from Cons.prems obtain n1 g i rs' where
    bs: "snd (batch_scores E dev net b) = Inr (n1, g, i)"
    and r: "per_batch_scores E dev n1 rest = Inr (rs', net')"
    by (auto split: sum.splits prod.splits)
  from batch_scores_fst_ok [OF bs [unfolded b]] bs Cons.IH [OF r, of "gs @ g" "is @ i"]
  show ?case by (simp add: b fst_bind_run)
qed

lemma evaluate_fst_ok:
  assumes "snd (evaluate E d net loader dev) = Inr (metrics, net')"
  shows "\<exists>rs. per_batch_scores E dev net loader = Inr (rs, net')
           \<and> evaluate_metrics E d (concat (map fst rs)) (concat (map snd rs)) = Inr metrics
           \<and> fst (evaluate E d net loader dev)
               = map (\<lambda>ev. (ev, None))
                   (concat (map batch_forwards loader)
                    @ [EvaluateMetrics d (concat (map fst rs)) (concat (map snd rs))])"
proof -
  from assms obtain rs where pb: "per_batch_scores E dev net loader = Inr (rs, net')"
    and em: "evaluate_metrics E d (concat (map fst rs)) (concat (map snd rs)) = Inr metrics"
    by (auto simp add: evaluate_snd split: sum.splits prod.splits)
  from pb have sl: "snd (score_loop E dev net loader [] [])
      = Inr (net', concat (map fst rs), concat (map snd rs))"
    by (simp add: score_loop_snd)
  have "fst (evaluate E d net loader dev)
          = map (\<lambda>ev. (ev, None))
              (concat (map batch_forwards loader)
               @ [EvaluateMetrics d (concat (map fst rs)) (concat (map snd rs))])"
    using sl em score_loop_fst_ok [OF pb, of "[]" "[]"]
    by (simp add: evaluate_def fst_bind_run bind_call unit_run_def)
  with pb em show ?thesis by blast
qed

lemma main_fst_ok:
  assumes "snd (main E a) = Inr ()"
  shows "\<exists>train_loader test_loader net0 net1 rs net2 metrics.
           create_dataloader E (data_dir a) 64 2 = Inr (train_loader, test_loader)
         \<and> FocusFace E 601 = Inr net0
         \<and> load_checkpoint E (os_path_join (model_dir a) (pretrained a @ ''.pth.tar'')) net0
             = Inr net1
         \<and> per_batch_scores E (if cuda_is_available E then Cuda else Cpu) net1 test_loader
             = Inr (rs, net2)
         \<and> evaluate_metrics E (model_dir a) (concat (map fst rs)) (concat (map snd rs))
             = Inr metrics
         \<and> fst (main E a) = map (\<lambda>ev. (ev, None))
             ([ManualSeed 230]
              @ (if cuda_is_available E then [CudaManualSeed 230] else [])
              @ [SetLogger (os_path_join (model_dir a) ''test.log''),
                 LogInfo ''Loading the datasets ...'',
                 CreateDataloader (data_dir a) 64 2,
                 LogInfo ''- Done.'',
                 NewFocusFace 601,
                 LogInfo (''Loading parameters from ''
                          @ os_path_join (model_dir a) (pretrained a @ ''.pth.tar'')),
                 LoadCheckpoint (os_path_join (model_dir a) (pretrained a @ ''.pth.tar'')),
                 LogInfo ''Start evaluation ...'']
              @ concat (map batch_forwards test_loader)
              @ [EvaluateMetrics (model_dir a) (concat (map fst rs)) (concat (map snd rs)),
                 SaveDictToJson metrics
                   (os_path_join (model_dir a)
                      (''test_metrics_'' @ pretrained a @ ''.json''))])"
proof -
  let ?dev = "if cuda_is_available E then Cuda else Cpu"
  from assms obtain train_loader test_loader net0 net1 metrics net2 where
    sl: "set_logger E (os_path_join (model_dir a) ''test.log'') = Inr ()"
    and cd: "create_dataloader E (data_dir a) 64 2 = Inr (train_loader, test_loader)"
    and ff: "FocusFace E 601 = Inr net0"
    and lc: "load_checkpoint E (os_path_join (model_dir a) (pretrained a @ ''.pth.tar'')) net0
               = Inr net1"
    and ev: "snd (evaluate E (model_dir a) net1 test_loader ?dev) = Inr (metrics, net2)"
    and sv: "save_dict_to_json E metrics
               (os_path_join (model_dir a) (''test_metrics_'' @ pretrained a @ ''.json''))
               = Inr ()"
    by (auto simp add: main_snd bind_err_def split: sum.splits prod.splits)
  from evaluate_fst_ok [OF ev] obtain rs where
    pb: "per_batch_scores E ?dev net1 test_loader = Inr (rs, net2)"
    and em: "evaluate_metrics E (model_dir a) (concat (map fst rs)) (concat (map snd rs))
               = Inr metrics"
    and fe: "fst (evaluate E (model_dir a) net1 test_loader ?dev)
               = map (\<lambda>ev. (ev, None))
                   (concat (map batch_forwards test_loader)
                    @ [EvaluateMetrics (model_dir a) (concat (map fst rs))
                         (concat (map snd rs))])"
    by blast
  have "fst (main E a) = map (\<lambda>ev. (ev, None))
             ([ManualSeed 230]
              @ (if cuda_is_available E then [CudaManualSeed 230] else [])
              @ [SetLogger (os_path_join (model_dir a) ''test.log''),
                 LogInfo ''Loading the datasets ...'',
                 CreateDataloader (data_dir a) 64 2,
                 LogInfo ''- Done.'',
                 NewFocusFace 601,
                 LogInfo (''Loading parameters from ''
                          @ os_path_join (model_dir a) (pretrained a @ ''.pth.tar'')),
                 LoadCheckpoint (os_path_join (model_dir a) (pretrained a @ ''.pth.tar'')),
                 LogInfo ''Start evaluation ...'']
              @ concat (map batch_forwards test_loader)
              @ [EvaluateMetrics (model_dir a) (concat (map fst rs)) (concat (map snd rs)),
                 SaveDictToJson metrics
                   (os_path_join (model_dir a)
                      (''test_metrics_'' @ pretrained a @ ''.json''))])"
  proof (cases "cuda_is_available E")
    case True
    with sl cd ff lc ev sv fe show ?thesis
      by (simp add: main_def Let_def to_device_def fst_bind_run snd_bind_run snd_call
          snd_unit_run call_def unit_run_def raised_def)
  next
    case False
    with sl cd ff lc ev sv fe show ?thesis
      by (simp add: main_def Let_def to_device_def fst_bind_run snd_bind_run snd_call
          snd_unit_run call_def unit_run_def raised_def)
  qed
  with cd ff lc pb em show ?thesis by blast
qed

lemma generate_embeddings_ok:
  assumes "snd (generate_embeddings E net tgt data) = Inr (e, net')"
  shows "\<exists>outs. forward E net (pixel_normalize data) tgt = Inr (outs, net')
           \<and> index outs 1 = Inr e"
  using assms
  by (auto simp add: generate_embeddings_snd bind_err_def split: sum.splits prod.splits)

text \<open>
  C8. The main procedure performs its steps in this order: it loads the dataset,
  creates the model and loads the checkpoint, loops over the batches of the test
  loader, computes the metrics, then serialises the result. A run that raises went
  through the first ones of these steps. A run that returns made exactly these
  calls, in this order: the seeding and the logger, the data loader, the model, the
  checkpoint, for every batch in turn the four forward passes on the images with
  normalised pixels, then \<open>evaluate_metrics\<close> on the two lists that aggregate the
  scores of all the batches, then \<open>save_dict_to_json\<close> on the metrics that this
  call returned. In a batch the scores are the distances of \<open>embedding_dist\<close>
  between the normalised embeddings that the forward passes returned. So the
  metrics are computed only after every batch has been processed, and the result
  is written only after the metrics are computed.
\<close>

theorem main_step_order:
  "prefix (steps (fst (main E a)))
     ([LoadDataset, LoadModel, LoadWeights]
        @ replicate (4 * (case create_dataloader E (data_dir a) 64 2 of
                            Inl e \<Rightarrow> 0 | Inr (train_loader, test_loader) \<Rightarrow> length test_loader))
            EmbedImages
        @ [ComputeMetrics, Serialize])
   \<and> (snd (main E a) = Inr () \<longrightarrow>
        steps (fst (main E a)) =
          [LoadDataset, LoadModel, LoadWeights]
        @ replicate (4 * (case create_dataloader E (data_dir a) 64 2 of
                            Inl e \<Rightarrow> 0 | Inr (train_loader, test_loader) \<Rightarrow> length test_loader))
            EmbedImages
        @ [ComputeMetrics, Serialize])
   \<and> (snd (main E a) = Inr () \<longrightarrow>
      (\<exists>train_loader test_loader net0 net1 rs net2 metrics.
           create_dataloader E (data_dir a) 64 2 = Inr (train_loader, test_loader)
         \<and> FocusFace E 601 = Inr net0
         \<and> load_checkpoint E (os_path_join (model_dir a) (pretrained a @ ''.pth.tar'')) net0
             = Inr net1
         \<and> per_batch_scores E (if cuda_is_available E then Cuda else Cpu) net1 test_loader
             = Inr (rs, net2)
         \<and> evaluate_metrics E (model_dir a) (concat (map fst rs)) (concat (map snd rs))
             = Inr metrics
         \<and> fst (main E a) = map (\<lambda>ev. (ev, None))
             ([ManualSeed 230]
              @ (if cuda_is_available E then [CudaManualSeed 230] else [])
              @ [SetLogger (os_path_join (model_dir a) ''test.log''),
                 LogInfo ''Loading the datasets ...'',
                 CreateDataloader (data_dir a) 64 2,
                 LogInfo ''- Done.'',
                 NewFocusFace 601,
                 LogInfo (''Loading parameters from ''
                          @ os_path_join (model_dir a) (pretrained a @ ''.pth.tar'')),
                 LoadCheckpoint (os_path_join (model_dir a) (pretrained a @ ''.pth.tar'')),
                 LogInfo ''Start evaluation ...'']
              @ concat (map batch_forwards test_loader)
              @ [EvaluateMetrics (model_dir a) (concat (map fst rs)) (concat (map snd rs)),
                 SaveDictToJson metrics
                   (os_path_join (model_dir a)
                      (''test_metrics_'' @ pretrained a @ ''.json''))])))
   \<and> (\<forall>net gen imp net' g_dist i_dist.
        snd (batch_scores E dev net (gen, imp)) = Inr (net', g_dist, i_dist) \<longrightarrow>
        (\<exists>outs1 e1 n1 outs2 e2 n2 outs3 e3 n3 outs4 e4.
            forward E net (pixel_normalize (masked gen)) (target gen ! 0) = Inr (outs1, n1)
          \<and> index outs1 1 = Inr e1
          \<and> forward E n1 (pixel_normalize (unmasked gen)) (target gen ! 0) = Inr (outs2, n2)
          \<and> index outs2 1 = Inr e2
          \<and> forward E n2 (pixel_normalize (masked imp)) (target imp ! 1) = Inr (outs3, n3)
          \<and> index outs3 1 = Inr e3
          \<and> forward E n3 (pixel_normalize (unmasked imp)) (target imp ! 1) = Inr (outs4, net')
          \<and> index outs4 1 = Inr e4
          \<and> embedding_dist (normalize e1) (normalize e2) = Inr g_dist
          \<and> embedding_dist (normalize e3) (normalize e4) = Inr i_dist))"
proof -
  have A: "prefix (steps (fst (main E a)))
     ([LoadDataset, LoadModel, LoadWeights]
        @ replicate (4 * (case create_dataloader E (data_dir a) 64 2 of
                            Inl e \<Rightarrow> 0 | Inr (train_loader, test_loader) \<Rightarrow> length test_loader))
            EmbedImages
        @ [ComputeMetrics, Serialize])
   \<and> (snd (main E a) = Inr () \<longrightarrow>
        steps (fst (main E a)) =
          [LoadDataset, LoadModel, LoadWeights]
        @ replicate (4 * (case create_dataloader E (data_dir a) 64 2 of
                            Inl e \<Rightarrow> 0 | Inr (train_loader, test_loader) \<Rightarrow> length test_loader))
            EmbedImages
        @ [ComputeMetrics, Serialize])"
    using main_steps_plan [of E a]
    by (auto simp add: observes_def split: sum.splits prod.splits)
  have B: "(snd (main E a) = Inr () \<longrightarrow>
      (\<exists>train_loader test_loader net0 net1 rs net2 metrics.
           create_dataloader E (data_dir a) 64 2 = Inr (train_loader, test_loader)
         \<and> FocusFace E 601 = Inr net0
         \<and> load_checkpoint E (os_path_join (model_dir a) (pretrained a @ ''.pth.tar'')) net0
             = Inr net1
         \<and> per_batch_scores E (if cuda_is_available E then Cuda else Cpu) net1 test_loader
             = Inr (rs, net2)
         \<and> evaluate_metrics E (model_dir a) (concat (map fst rs)) (concat (map snd rs))
             = Inr metrics
         \<and> fst (main E a) = map (\<lambda>ev. (ev, None))
             ([ManualSeed 230]
              @ (if cuda_is_available E then [CudaManualSeed 230] else [])
              @ [SetLogger (os_path_join (model_dir a) ''test.log''),
                 LogInfo ''Loading the datasets ...'',
                 CreateDataloader (data_dir a) 64 2,
                 LogInfo ''- Done.'',
                 NewFocusFace 601,
                 LogInfo (''Loading parameters from ''
                          @ os_path_join (model_dir a) (pretrained a @ ''.pth.tar'')),
                 LoadCheckpoint (os_path_join (model_dir a) (pretrained a @ ''.pth.tar'')),
                 LogInfo ''Start evaluation ...'']
              @ concat (map batch_forwards test_loader)
              @ [EvaluateMetrics (model_dir a) (concat (map fst rs)) (concat (map snd rs)),
                 SaveDictToJson metrics
                   (os_path_join (model_dir a)
                      (''test_metrics_'' @ pretrained a @ ''.json''))])))"
    using main_fst_ok [of E a] by blast
  have C: "(\<forall>net gen imp net' g_dist i_dist.
        snd (batch_scores E dev net (gen, imp)) = Inr (net', g_dist, i_dist) \<longrightarrow>
        (\<exists>outs1 e1 n1 outs2 e2 n2 outs3 e3 n3 outs4 e4.
            forward E net (pixel_normalize (masked gen)) (target gen ! 0) = Inr (outs1, n1)
          \<and> index outs1 1 = Inr e1
          \<and> forward E n1 (pixel_normalize (unmasked gen)) (target gen ! 0) = Inr (outs2, n2)
          \<and> index outs2 1 = Inr e2
          \<and> forward E n2 (pixel_normalize (masked imp)) (target imp ! 1) = Inr (outs3, n3)
          \<and> index outs3 1 = Inr e3
          \<and> forward E n3 (pixel_normalize (unmasked imp)) (target imp ! 1) = Inr (outs4, net')
          \<and> index outs4 1 = Inr e4
          \<and> embedding_dist (normalize e1) (normalize e2) = Inr g_dist
          \<and> embedding_dist (normalize e3) (normalize e4) = Inr i_dist))"
  proof (intro allI impI)
    fix net gen imp net' g_dist i_dist
    assume "snd (batch_scores E dev net (gen, imp)) = Inr (net', g_dist, i_dist)"
    from batch_scores_ok [OF this] obtain e1 n1 e2 n2 e3 n3 e4 where
      g1: "snd (generate_embeddings E net (target gen ! 0) (masked gen)) = Inr (e1, n1)"
      and g2: "snd (generate_embeddings E n1 (target gen ! 0) (unmasked gen)) = Inr (e2, n2)"
      and g3: "snd (generate_embeddings E n2 (target imp ! 1) (masked imp)) = Inr (e3, n3)"
      and g4: "snd (generate_embeddings E n3 (target imp ! 1) (unmasked imp)) = Inr (e4, net')"
      and d1: "embedding_dist (normalize e1) (normalize e2) = Inr g_dist"
      and d2: "embedding_dist (normalize e3) (normalize e4) = Inr i_dist"
      by blast
    from generate_embeddings_ok [OF g1] generate_embeddings_ok [OF g2]
      generate_embeddings_ok [OF g3] generate_embeddings_ok [OF g4] d1 d2
    show "\<exists>outs1 e1 n1 outs2 e2 n2 outs3 e3 n3 outs4 e4.
            forward E net (pixel_normalize (masked gen)) (target gen ! 0) = Inr (outs1, n1)
          \<and> index outs1 1 = Inr e1
          \<and> forward E n1 (pixel_normalize (unmasked gen)) (target gen ! 0) = Inr (outs2, n2)
          \<and> index outs2 1 = Inr e2
          \<and> forward E n2 (pixel_normalize (masked imp)) (target imp ! 1) = Inr (outs3, n3)
          \<and> index outs3 1 = Inr e3
          \<and> forward E n3 (pixel_normalize (unmasked imp)) (target imp ! 1) = Inr (outs4, net')
          \<and> index outs4 1 = Inr e4
          \<and> embedding_dist (normalize e1) (normalize e2) = Inr g_dist
          \<and> embedding_dist (normalize e3) (normalize e4) = Inr i_dist"
      by blast
  qed
  from A B C show ?thesis by (intro conjI) (elim conjE, assumption)+
qed

theorem main_step_order_witness:
  "snd (main example_env example_args) = Inr ()
   \<and> steps (fst (main example_env example_args))
     = [LoadDataset, LoadModel, LoadWeights,
        EmbedImages, EmbedImages, EmbedImages, EmbedImages,
        EmbedImages, EmbedImages, EmbedImages, EmbedImages,
        ComputeMetrics, Serialize]"
  using main_step_order [where E = example_env and a = example_args,
      THEN conjunct2, THEN conjunct1] example_main_ok
  by (simp add: example_env_def example_loader_def example_args_def eval_nat_numeral)

section \<open>The state of the network\<close>

lemma generate_embeddings_frame:
  assumes "\<forall>n img t outs n'. forward E n img t = Inr (outs, n') \<longrightarrow> P n' = P n"
    and "snd (generate_embeddings E net tgt data) = Inr (e, net')"
  shows "P net' = P net"
  using assms
  by (auto simp add: generate_embeddings_snd bind_err_def split: sum.splits prod.splits)

lemma batch_scores_frame:
  assumes pure: "\<forall>n img t outs n'. forward E n img t = Inr (outs, n') \<longrightarrow> P n' = P n"
    and r: "snd (batch_scores E dev net b) = Inr (net', g, i)"
  shows "P net' = P net"
proof -
  obtain gen imp where b: "b = (gen, imp)" by (cases b) auto
  from r obtain e1 n1 e2 n2 e3 n3 e4 n4 t0 t1 where
    g1: "snd (generate_embeddings E net (to_device dev t0) (to_device dev (masked gen)))
           = Inr (e1, n1)"
    and g2: "snd (generate_embeddings E n1 (to_device dev t0) (to_device dev (unmasked gen)))
           = Inr (e2, n2)"
    and g3: "snd (generate_embeddings E n2 (to_device dev t1) (to_device dev (masked imp)))
           = Inr (e3, n3)"
    and g4: "snd (generate_embeddings E n3 (to_device dev t1) (to_device dev (unmasked imp)))
           = Inr (e4, n4)"
    and n: "net' = n4"
    unfolding b batch_scores_def Let_def
    by (auto simp add: snd_bind_run lift_def unit_run_def split: sum.splits prod.splits)
  from generate_embeddings_frame [of E P, OF pure g1]
    generate_embeddings_frame [of E P, OF pure g2]
    generate_embeddings_frame [of E P, OF pure g3]
    generate_embeddings_frame [of E P, OF pure g4] n
  show ?thesis by simp
qed

lemma per_batch_scores_frame:
  assumes pure: "\<forall>n img t outs n'. forward E n img t = Inr (outs, n') \<longrightarrow> P n' = P n"
  shows "per_batch_scores E dev net loader = Inr (rs, net') \<Longrightarrow> P net' = P net"
proof (induction loader arbitrary: net rs)
  case Nil
  then show ?case by simp
next
  case (Cons b rest)
  from Cons.prems obtain n1 g i rs' where
    b: "snd (batch_scores E dev net b) = Inr (n1, g, i)"
    and r: "per_batch_scores E dev n1 rest = Inr (rs', net')"
    by (auto split: sum.splits prod.splits)
  from batch_scores_frame [of E P, OF pure b] Cons.IH [OF r] show ?case by simp
qed

text \<open>
  C10. \<open>evaluate\<close> leaves the parameters of the model unchanged: it runs under
  \<open>torch.no_grad\<close> and makes no update of its own, it only runs forward passes. So
  with a forward pass that updates no parameter, the parameters of the network
  after \<open>evaluate\<close> are the parameters before it, for every data loader; with
  \<open>parameters\<close> the whole state, the state after equals the state before.
\<close>

theorem evaluate_keeps_parameters:
  assumes "\<forall>n img t outs n'. forward E n img t = Inr (outs, n')
             \<longrightarrow> parameters n' = parameters n"
    and "snd (evaluate E d net loader dev) = Inr (metrics, net')"
  shows "parameters net' = parameters net"
proof -
  from assms(2) obtain rs where "per_batch_scores E dev net loader = Inr (rs, net')"
    by (auto simp add: evaluate_snd split: sum.splits prod.splits)
  with per_batch_scores_frame [of E parameters, OF assms(1)] show ?thesis by blast
qed

theorem evaluate_keeps_parameters_witness:
  "snd (evaluate buffered_env ''result/base_model'' (42, 0) example_loader Cpu)
     = Inr ((2, 1), (42, 8))
   \<and> fst (42::nat, 8::nat) = fst (42::nat, 0::nat)"
proof -
  have pure: "\<forall>n img t outs n'. forward buffered_env n img t = Inr (outs, n')
                \<longrightarrow> fst n' = fst n"
    by (auto simp add: buffered_env_def)
  have r: "snd (evaluate buffered_env ''result/base_model'' (42, 0) example_loader Cpu)
             = Inr ((2, 1), (42, 8))"
    by (simp add: buffered_env_def example_loader_def run_eval)
  from evaluate_keeps_parameters [of buffered_env fst, OF pure r] r show ?thesis by simp
qed

end
